theory Spec2Isabelle
  imports Complex_Main
begin

section \<open>JavaScript values\<close>

text \<open>
  The rule engine and the scoring service work on plain JavaScript values: the rule
  configuration is the result of \<^verbatim>\<open>JSON.parse\<close>, the verification data is a request
  body. A value is modelled as it is at run time, untyped. An object is the list of its
  own properties in insertion order; a property that is not in the list reads as
  \<^verbatim>\<open>undefined\<close>. A number value is the real that the binary64 value stands for:
  \<^verbatim>\<open>NaN\<close> and the infinities are not values of the model, and where JavaScript would
  produce \<^verbatim>\<open>NaN\<close> the operations below say so explicitly. Comparisons of numbers are
  comparisons of reals. The arithmetic of the rule score, which divides sums of weights
  from the rules file, is modelled with the rounding, the infinities and the NaN of
  binary64 (see there); the other sub-scores add constants to 50, and their sums and the
  weighted mean of \<^verbatim>\<open>_combineScores\<close> are taken in exact arithmetic.
\<close>

datatype jsval =
    JUndefined
  | JNull
  | JBool bool
  | JNum real
  | JStr string
  | JArr "jsval list"
  | JObj "(string \<times> jsval) list"

text \<open>
  What can be thrown. \<open>Unmodelled\<close> is not a JavaScript exception: it marks an operation
  whose JavaScript meaning is outside this model (a coercion of a string or an object to
  a number, program text outside the modelled expressions).
\<close>

datatype js_error = SyntaxError | TypeError | ReferenceError | Unmodelled

text \<open>Truthiness, as used by \<^verbatim>\<open>if\<close>, \<^verbatim>\<open>!\<close>, \<^verbatim>\<open>&&\<close>, \<^verbatim>\<open>||\<close> and \<^verbatim>\<open>Boolean()\<close>.\<close>

fun truthy :: "jsval \<Rightarrow> bool" where
  "truthy JUndefined = False"
| "truthy JNull = False"
| "truthy (JBool b) = b"
| "truthy (JNum x) = (x \<noteq> 0)"
| "truthy (JStr s) = (s \<noteq> [])"
| "truthy (JArr xs) = True"
| "truthy (JObj kvs) = True"

text \<open>\<^verbatim>\<open>a || b\<close> on values.\<close>

definition js_or :: "jsval \<Rightarrow> jsval \<Rightarrow> jsval" where
  "js_or a b = (if truthy a then a else b)"

text \<open>
  Reading a property \<^verbatim>\<open>v.k\<close> of a value that is neither \<^verbatim>\<open>null\<close> nor
  \<^verbatim>\<open>undefined\<close>. Own properties only: the names read through \<open>own_prop\<close> in this theory
  (\<^verbatim>\<open>id\<close>, \<^verbatim>\<open>weight\<close>, \<^verbatim>\<open>duration\<close>, \<^verbatim>\<open>length\<close>, ...) are not inherited from a
  prototype by any JSON value. The length of a string counts characters of the model.
\<close>

fun own_prop :: "jsval \<Rightarrow> string \<Rightarrow> jsval" where
  "own_prop (JObj kvs) k = (case map_of kvs k of Some v \<Rightarrow> v | None \<Rightarrow> JUndefined)"
| "own_prop (JStr s) k = (if k = ''length'' then JNum (real (length s)) else JUndefined)"
| "own_prop (JArr xs) k = (if k = ''length'' then JNum (real (length xs)) else JUndefined)"
| "own_prop v k = JUndefined"

fun nullish :: "jsval \<Rightarrow> bool" where
  "nullish JUndefined = True"
| "nullish JNull = True"
| "nullish v = False"

text \<open>Reading \<^verbatim>\<open>v.k\<close> of any value: a TypeError on \<^verbatim>\<open>null\<close> and \<^verbatim>\<open>undefined\<close>.\<close>

definition get_prop :: "jsval \<Rightarrow> string \<Rightarrow> js_error + jsval" where
  "get_prop v k = (if nullish v then Inl TypeError else Inr (own_prop v k))"

text \<open>
  Strict equality \<^verbatim>\<open>===\<close>. Primitives compare by value. Objects and arrays compare by
  reference; the model has no aliasing, two object values are two allocations, so they
  are never strictly equal.
\<close>

fun strict_equals :: "jsval \<Rightarrow> jsval \<Rightarrow> bool" where
  "strict_equals JUndefined JUndefined = True"
| "strict_equals JNull JNull = True"
| "strict_equals (JBool a) (JBool b) = (a = b)"
| "strict_equals (JNum a) (JNum b) = (a = b)"
| "strict_equals (JStr a) (JStr b) = (a = b)"
| "strict_equals a b = False"

text \<open>Writing an own property: in place when the key exists, appended otherwise.\<close>

fun set_prop :: "(string \<times> jsval) list \<Rightarrow> string \<Rightarrow> jsval \<Rightarrow> (string \<times> jsval) list" where
  "set_prop [] k v = [(k, v)]"
| "set_prop ((k', v') # kvs) k v =
     (if k' = k then (k, v) # kvs else (k', v') # set_prop kvs k v)"


section \<open>The rule engine: store, load and validation\<close>

text \<open>
  Errors raised by the engine itself, one constructor per \<^verbatim>\<open>throw\<close> of the source; the
  value a message interpolates is kept as an argument.
\<close>

datatype error =
    Host js_error
  | InvalidRule jsval
  | InvalidRuleAction jsval
  | InvalidRuleWeight jsval
  | InvalidRuleStructure
  | RuleIdExists jsval
  | FailedToEvaluate jsval error
  | ScoringFailed error
  | RuleIdRequired
  | RuleNameRequired
  | RuleConditionRequired
  | RuleWeightMustBeNumber
  | RuleActionInvalid
  | InvalidThresholdConfiguration
  | InvalidRateLimitConfiguration

text \<open>
  The fields of \<^verbatim>\<open>RuleEngine\<close>. \<open>rules\<close> is the array \<^verbatim>\<open>this.rules\<close>; \<open>lastLoaded\<close> is
  \<^verbatim>\<open>null\<close> or an ISO time stamp.
\<close>

record rule_engine =
  rulesPath :: string
  rules :: "jsval list"
  thresholds :: jsval
  lastLoaded :: "string option"

definition default_thresholds :: jsval where
  "default_thresholds =
     JObj [(''allow'', JNum 80), (''review'', JNum 50), (''deny'', JNum 0)]"

text \<open>\<^verbatim>\<open>constructor(rulesPath)\<close>\<close>

definition new_RuleEngine :: "string \<Rightarrow> rule_engine" where
  "new_RuleEngine path =
     \<lparr>rulesPath = path, rules = [], thresholds = default_thresholds, lastLoaded = None\<rparr>"

definition mk_rule ::
  "string \<Rightarrow> string \<Rightarrow> string \<Rightarrow> real \<Rightarrow> string \<Rightarrow> string \<Rightarrow> jsval" where
  "mk_rule i n c w a d =
     JObj [(''id'', JStr i), (''name'', JStr n), (''condition'', JStr c),
           (''weight'', JNum w), (''action'', JStr a), (''enabled'', JBool True),
           (''description'', JStr d)]"

text \<open>
  The eight built-in rules of \<^verbatim>\<open>_loadDefaultRules\<close>, in the order of the source. The
  description texts are written without their accents; nothing reads them.
\<close>

definition default_rules :: "jsval list" where
  "default_rules =
    [mk_rule ''fingerprint_completeness'' ''Fingerprint Completeness''
       ''fingerprint.userAgent && fingerprint.canvasFingerprint && fingerprint.webglFingerprint''
       20 ''allow'' ''Verifica se o fingerprint esta completo'',
     mk_rule ''behavioral_activity'' ''Behavioral Activity''
       ''behavioral && behavioral.totalEvents > 5''
       15 ''allow'' ''Verifica se ha atividade comportamental suficiente'',
     mk_rule ''session_duration'' ''Session Duration''
       ''behavioral && behavioral.duration > 30000''
       10 ''allow'' ''Verifica se a sessao tem duracao minima'',
     mk_rule ''suspicious_user_agent'' ''Suspicious User Agent''
       (''fingerprint.userAgent.includes('' @ [CHR 0x22] @ ''bot'' @ [CHR 0x22] @
        '') || fingerprint.userAgent.includes('' @ [CHR 0x22] @ ''crawler'' @ [CHR 0x22] @ '')'')
       (- 30) ''deny'' ''Detecta user agents suspeitos'',
     mk_rule ''missing_fingerprint'' ''Missing Fingerprint''
       ''!fingerprint || !fingerprint.userAgent''
       (- 50) ''deny'' ''Detecta ausencia de fingerprint'',
     mk_rule ''facial_verification'' ''Facial Verification''
       ''facial && facial.imageData && !facial.error''
       25 ''allow'' ''Bonus por verificacao facial bem-sucedida'',
     mk_rule ''high_behavioral_frequency'' ''High Behavioral Frequency''
       ''behavioral && behavioral.metrics.clickFrequency > 0.5''
       (- 10) ''review'' ''Detecta atividade comportamental anormalmente alta'',
     mk_rule ''canvas_fingerprint_consistency'' ''Canvas Fingerprint Consistency''
       ''fingerprint.canvasFingerprint && fingerprint.canvasFingerprint.length > 100''
       10 ''allow'' ''Verifica consistencia do canvas fingerprint'']"

text \<open>\<^verbatim>\<open>_loadDefaultRules()\<close>: overwrites rules and thresholds, leaves \<open>lastLoaded\<close>.\<close>

definition loadDefaultRules :: "rule_engine \<Rightarrow> rule_engine" where
  "loadDefaultRules st = st\<lparr>rules := default_rules, thresholds := default_thresholds\<rparr>"

text \<open>
  The body of the loop of \<^verbatim>\<open>_validateRules\<close> for one rule. Reading a field of a
  \<^verbatim>\<open>null\<close> entry throws a TypeError. The first test is on truthiness: \<^verbatim>\<open>!rule.weight\<close>
  holds for a missing weight and for the weight \<open>0\<close>.
\<close>

definition validateRule :: "jsval \<Rightarrow> error + unit" where
  "validateRule rule =
     (if nullish rule then Inl (Host TypeError)
      else if \<not> truthy (own_prop rule ''id'') \<or> \<not> truthy (own_prop rule ''name'')
              \<or> \<not> truthy (own_prop rule ''condition'') \<or> \<not> truthy (own_prop rule ''weight'')
              \<or> \<not> truthy (own_prop rule ''action'')
        then Inl (InvalidRule rule)
      else if \<not> (strict_equals (JStr ''allow'') (own_prop rule ''action'')
                \<or> strict_equals (JStr ''review'') (own_prop rule ''action'')
                \<or> strict_equals (JStr ''deny'') (own_prop rule ''action''))
        then Inl (InvalidRuleAction (own_prop rule ''action''))
      else if (case own_prop rule ''weight'' of JNum w \<Rightarrow> False | _ \<Rightarrow> True)
        then Inl (InvalidRuleWeight (own_prop rule ''weight''))
      else Inr ())"

text \<open>\<^verbatim>\<open>_validateRules()\<close>: stops at the first rule that fails.\<close>

fun validateRules :: "jsval list \<Rightarrow> error + unit" where
  "validateRules [] = Inr ()"
| "validateRules (rule # rs) =
     (case validateRule rule of Inl e \<Rightarrow> Inl e | Inr u \<Rightarrow> validateRules rs)"

text \<open>
  The values \<^verbatim>\<open>for (const rule of this.rules)\<close> iterates over: the elements of an array,
  the characters of a string; any other value is not iterable (TypeError).
\<close>

fun iterate :: "jsval \<Rightarrow> js_error + jsval list" where
  "iterate (JArr xs) = Inr xs"
| "iterate (JStr s) = Inr (map (\<lambda>c. JStr [c]) s)"
| "iterate v = Inl TypeError"

text \<open>
  \<^verbatim>\<open>loadRules()\<close>. The argument \<open>file\<close> is the outcome of reading and parsing the rules
  file: \<open>None\<close> when \<^verbatim>\<open>fs.readFile\<close> or \<^verbatim>\<open>JSON.parse\<close> throws, the parsed value
  otherwise; \<open>now\<close> is \<^verbatim>\<open>new Date().toISOString()\<close>. The source assigns
  \<^verbatim>\<open>this.rules\<close>, \<^verbatim>\<open>this.thresholds\<close> and \<^verbatim>\<open>this.lastLoaded\<close> first and validates
  afterwards; every exception inside the \<^verbatim>\<open>try\<close> block ends in \<^verbatim>\<open>_loadDefaultRules()\<close>.
  A value of \<^verbatim>\<open>config.rules\<close> that is not an array is never kept: it is either not
  iterable or a non-empty string, whose characters fail the validation.
\<close>

definition loadRules :: "string \<Rightarrow> jsval option \<Rightarrow> rule_engine \<Rightarrow> rule_engine" where
  "loadRules now file st =
     (case file of
        None \<Rightarrow> loadDefaultRules st
      | Some config \<Rightarrow>
          (if nullish config then loadDefaultRules st
           else
             let st1 = st\<lparr>thresholds := js_or (own_prop config ''thresholds'') (thresholds st),
                         lastLoaded := Some now\<rparr>
             in (case iterate (js_or (own_prop config ''rules'') (JArr [])) of
                   Inl e \<Rightarrow> loadDefaultRules st1
                 | Inr rs \<Rightarrow>
                     (case validateRules rs of
                        Inl e \<Rightarrow> loadDefaultRules st1
                      | Inr u \<Rightarrow> st1\<lparr>rules := rs\<rparr>))))"

text \<open>\<^verbatim>\<open>this.rules.find(r => r.id === rule.id)\<close>: a TypeError on a \<^verbatim>\<open>null\<close> entry.\<close>

fun find_by_id :: "jsval list \<Rightarrow> jsval \<Rightarrow> js_error + jsval" where
  "find_by_id [] i = Inr JUndefined"
| "find_by_id (r # rs) i =
     (if nullish r then Inl TypeError
      else if strict_equals (own_prop r ''id'') i then Inr r
      else find_by_id rs i)"

text \<open>
  \<^verbatim>\<open>addTemporaryRule(rule)\<close>. A rule that passes the first test has a truthy \<^verbatim>\<open>id\<close>
  property, so it is an object; the pushed copy has \<^verbatim>\<open>enabled\<close> and \<^verbatim>\<open>temporary\<close>
  overwritten.
\<close>

definition addTemporaryRule :: "jsval \<Rightarrow> rule_engine \<Rightarrow> error + rule_engine" where
  "addTemporaryRule rule st =
     (if nullish rule then Inl (Host TypeError)
      else if \<not> truthy (own_prop rule ''id'') \<or> \<not> truthy (own_prop rule ''name'')
              \<or> \<not> truthy (own_prop rule ''condition'') \<or> \<not> truthy (own_prop rule ''weight'')
              \<or> \<not> truthy (own_prop rule ''action'')
        then Inl InvalidRuleStructure
      else (case find_by_id (rules st) (own_prop rule ''id'') of
              Inl e \<Rightarrow> Inl (Host e)
            | Inr found \<Rightarrow>
                if truthy found then Inl (RuleIdExists (own_prop rule ''id''))
                else (case rule of
                        JObj kvs \<Rightarrow>
                          Inr (st\<lparr>rules := rules st @
                                 [JObj (set_prop
                                    (set_prop kvs ''enabled''
                                       (JBool (\<not> strict_equals (own_prop rule ''enabled'') (JBool False))))
                                    ''temporary'' (JBool True))]\<rparr>)
                      | _ \<Rightarrow> Inl (Host Unmodelled))))"


section \<open>Rule conditions\<close>

subsection \<open>The guard rewriting of \<^verbatim>\<open>_evaluateCondition\<close>\<close>

text \<open>The class \<^verbatim>\<open>\w\<close> of the regular expression: ASCII letters, digits and the underscore.\<close>

definition word_char :: "char \<Rightarrow> bool" where
  "word_char c =
     (let n = (of_char c :: nat)
      in (48 \<le> n \<and> n \<le> 57) \<or> (65 \<le> n \<and> n \<le> 90) \<or> n = 95 \<or> (97 \<le> n \<and> n \<le> 122))"

text \<open>
  The callback of \<^verbatim>\<open>replace\<close>. A match of \<^verbatim>\<open>(\w+\.\w+)\<close> has exactly one dot, so
  \<^verbatim>\<open>match.split('.')\<close> is the pair of words \<open>a\<close>, \<open>b\<close> and the loop that builds
  \<^verbatim>\<open>check\<close> runs once.
\<close>

definition replacement :: "string \<Rightarrow> string \<Rightarrow> string" where
  "replacement a b =
     (let matched = a @ ''.'' @ b;
          check = a @ '' && '' @ a @ ''.'' @ b
      in ''('' @ check @ '' ? '' @ matched @ '' : null)'')"

text \<open>
  \<^verbatim>\<open>condition.replace(/(\w+\.\w+)/g, ...)\<close>, scanning from the left. At the start of a
  run of word characters the pattern matches when the run is followed by a dot and a word
  character; both \<^verbatim>\<open>\w+\<close> are greedy, and the scan resumes after the second run. When
  the run is not followed so, no position inside it matches either, and the run is
  copied.
\<close>

function replace_paths :: "string \<Rightarrow> string" where
  "replace_paths [] = []"
| "replace_paths (c # cs) =
     (if word_char c then
        (let a = takeWhile word_char (c # cs); rest = dropWhile word_char (c # cs)
         in (case rest of
               d # e # rest' \<Rightarrow>
                 if d = CHR ''.'' \<and> word_char e
                 then replacement a (takeWhile word_char (e # rest'))
                        @ replace_paths (dropWhile word_char (e # rest'))
                 else a @ replace_paths rest
             | _ \<Rightarrow> a @ replace_paths rest))
      else c # replace_paths cs)"
  by pat_completeness auto
termination
proof (relation "measure length", goal_cases)
  case 1
  show ?case by simp
next
  case (2 c cs a rest)
  then show ?case by (simp add: le_imp_less_Suc length_dropWhile_le)
next
  case (3 c cs a rest)
  then show ?case by (simp add: le_imp_less_Suc length_dropWhile_le)
next
  case (4 c cs a rest d tl e rest')
  have "length (dropWhile word_char rest') \<le> length rest'"
    by (rule length_dropWhile_le)
  moreover have "length (dropWhile word_char cs) \<le> length cs"
    by (rule length_dropWhile_le)
  moreover from 4 have "dropWhile word_char cs = d # e # rest'"
    by simp
  ultimately show ?case using 4 by simp
next
  case (5 c cs a rest d tl e rest')
  then show ?case by (simp add: le_imp_less_Suc length_dropWhile_le)
next
  case 6
  then show ?case by simp
qed

declare replace_paths.simps [simp del]


subsection \<open>The host's \<^verbatim>\<open>Function\<close> constructor\<close>

text \<open>
  The source evaluates the rewritten condition with
  \<^verbatim>\<open>new Function('context', `const { fingerprint, behavioral, facial, sessionId, timestamp } = context; return ${safeCondition};`)\<close>.
  The constructor belongs to the JavaScript engine, not to the repository, so the rule
  engine is modelled over any constructor: \<open>new_Function src\<close> is the outcome of
  constructing the function for the condition text \<open>src\<close> (a SyntaxError, or a function),
  and the function applied to a context returns a value or throws. The body is JavaScript
  text and can read more than its argument: the clock through \<^verbatim>\<open>Date.now()\<close>, the
  generator of \<^verbatim>\<open>Math.random()\<close>, the globals. What it can read is the state of the
  host at the call, a value of the type \<open>'h\<close>, and the function takes it as an argument
  of its own. The context is not written to: a function returns a value or throws, and
  nothing else.
\<close>

type_synonym 'h js_function = "'h \<Rightarrow> jsval \<Rightarrow> js_error + jsval"

type_synonym 'h function_ctor = "string \<Rightarrow> js_error + 'h js_function"

text \<open>
  For statements about concrete conditions the theory has one constructor of its own,
  \<open>js_fragment\<close> below: an interpreter of the JavaScript expressions that rule conditions
  are written in (names, property reads, \<^verbatim>\<open>includes\<close> calls, literals, \<^verbatim>\<open>!\<close>,
  comparisons, \<^verbatim>\<open>&&\<close>, \<^verbatim>\<open>||\<close>, \<^verbatim>\<open>?:\<close>, parentheses). Text and operations outside
  this fragment are answered with \<open>Unmodelled\<close>; the expressions of the fragment read
  nothing of the host.
\<close>

subsubsection \<open>Tokens\<close>

datatype punct =
    LParen | RParen | Dot | Comma | Question | Colon | Bang | AndAnd | OrOr
  | EqEq | NotEq | EqEqEq | NotEqEq | Lt | Gt | Le | Ge

datatype token = TWord string | TNumber real | TString string | TPunct punct

definition digit_char :: "char \<Rightarrow> bool" where
  "digit_char c = (let n = (of_char c :: nat) in 48 \<le> n \<and> n \<le> 57)"

definition digits_value :: "string \<Rightarrow> nat" where
  "digits_value ds = foldl (\<lambda>n c. 10 * n + (of_char c - 48)) 0 ds"

text \<open>Reserved words; \<^verbatim>\<open>true\<close>, \<^verbatim>\<open>false\<close> and \<^verbatim>\<open>null\<close> are literals of the fragment.\<close>

definition reserved_words :: "string list" where
  "reserved_words =
     [''break'', ''case'', ''catch'', ''class'', ''const'', ''continue'', ''debugger'',
      ''default'', ''delete'', ''do'', ''else'', ''enum'', ''export'', ''extends'',
      ''finally'', ''for'', ''function'', ''if'', ''import'', ''in'', ''instanceof'',
      ''new'', ''return'', ''super'', ''switch'', ''this'', ''throw'', ''try'', ''typeof'',
      ''var'', ''void'', ''while'', ''with'']"

definition cons_token :: "token \<Rightarrow> js_error + token list \<Rightarrow> js_error + token list" where
  "cons_token t r = (case r of Inl e \<Rightarrow> Inl e | Inr ts \<Rightarrow> Inr (t # ts))"

lemma digit_is_word: "digit_char c \<Longrightarrow> word_char c"
  by (simp add: digit_char_def word_char_def Let_def)

lemma dropWhile_shorter: "dropWhile P xs = y # ys \<Longrightarrow> length ys < Suc (length xs)"
  by (metis length_dropWhile_le le_imp_less_Suc length_Cons Suc_le_lessD less_SucI)

lemma dropWhile_shorter2:
  "dropWhile P xs = y # ys \<Longrightarrow> length (dropWhile Q ys) < Suc (length xs)"
  by (meson dropWhile_shorter le_less_trans length_dropWhile_le)

text \<open>
  The tokens of a condition. Blanks separate tokens. A number is decimal digits with an
  optional fraction; a string has no escapes; an unterminated string is a SyntaxError.
  Every character, number form and operator that is not listed (arithmetic, assignment,
  \<^verbatim>\<open>=>\<close>, \<^verbatim>\<open>?.\<close>, \<^verbatim>\<open>??\<close>, shifts, brackets, braces, \<^verbatim>\<open>;\<close>, comments, line breaks,
  reserved words) is \<open>Unmodelled\<close>.
\<close>

function tokenize :: "string \<Rightarrow> js_error + token list" where
  "tokenize [] = Inr []"
| "tokenize (c # cs) =
     (if c = CHR '' '' \<or> c = CHR 0x09 then tokenize cs
      else if digit_char c then
        (let ds = takeWhile word_char (c # cs); rest = dropWhile word_char (c # cs)
         in if \<not> list_all digit_char ds \<or> (c = CHR ''0'' \<and> length ds > 1) then Inl Unmodelled
            else (case rest of
                    d # rest' \<Rightarrow>
                      if d = CHR ''.'' then
                        (let fs = takeWhile word_char rest'
                         in if fs = [] \<or> \<not> list_all digit_char fs then Inl Unmodelled
                            else cons_token
                                   (TNumber (real (digits_value ds)
                                             + real (digits_value fs) / 10 ^ length fs))
                                   (tokenize (dropWhile word_char rest')))
                      else cons_token (TNumber (real (digits_value ds))) (tokenize rest)
                  | [] \<Rightarrow> cons_token (TNumber (real (digits_value ds))) (tokenize rest)))
      else if word_char c then
        (let w = takeWhile word_char (c # cs)
         in if w \<in> set reserved_words then Inl Unmodelled
            else cons_token (TWord w) (tokenize (dropWhile word_char (c # cs))))
      else if c = CHR 0x22 \<or> c = CHR 0x27 then
        (let s = takeWhile (\<lambda>x. x \<noteq> c) cs
         in (case dropWhile (\<lambda>x. x \<noteq> c) cs of
               [] \<Rightarrow> if CHR 0x5C \<in> set s then Inl Unmodelled else Inl SyntaxError
             | q # rest \<Rightarrow>
                 if CHR 0x5C \<in> set s \<or> CHR 0x0A \<in> set s \<or> CHR 0x0D \<in> set s
                 then Inl Unmodelled
                 else cons_token (TString s) (tokenize rest)))
      else if c = CHR ''('' then cons_token (TPunct LParen) (tokenize cs)
      else if c = CHR '')'' then cons_token (TPunct RParen) (tokenize cs)
      else if c = CHR '','' then cons_token (TPunct Comma) (tokenize cs)
      else if c = CHR '':'' then cons_token (TPunct Colon) (tokenize cs)
      else if c = CHR ''.'' then
        (case cs of
           d # cs' \<Rightarrow> if digit_char d \<or> d = CHR ''.'' then Inl Unmodelled
                      else cons_token (TPunct Dot) (tokenize cs)
         | [] \<Rightarrow> cons_token (TPunct Dot) (tokenize cs))
      else if c = CHR ''?'' then
        (case cs of
           d # cs' \<Rightarrow> if d = CHR ''.'' \<or> d = CHR ''?'' then Inl Unmodelled
                      else cons_token (TPunct Question) (tokenize cs)
         | [] \<Rightarrow> cons_token (TPunct Question) (tokenize cs))
      else if c = CHR ''!'' then
        (case cs of
           d # e # cs' \<Rightarrow>
             if d = CHR ''='' \<and> e = CHR ''='' then cons_token (TPunct NotEqEq) (tokenize cs')
             else if d = CHR ''='' then cons_token (TPunct NotEq) (tokenize (e # cs'))
             else cons_token (TPunct Bang) (tokenize cs)
         | [d] \<Rightarrow> if d = CHR ''='' then cons_token (TPunct NotEq) (tokenize [])
                  else cons_token (TPunct Bang) (tokenize cs)
         | [] \<Rightarrow> cons_token (TPunct Bang) (tokenize cs))
      else if c = CHR ''='' then
        (case cs of
           d # e # cs' \<Rightarrow>
             if d = CHR ''='' \<and> e = CHR ''='' then cons_token (TPunct EqEqEq) (tokenize cs')
             else if d = CHR ''='' then cons_token (TPunct EqEq) (tokenize (e # cs'))
             else Inl Unmodelled
         | [d] \<Rightarrow> if d = CHR ''='' then cons_token (TPunct EqEq) (tokenize [])
                  else Inl Unmodelled
         | [] \<Rightarrow> Inl Unmodelled)
      else if c = CHR ''<'' then
        (case cs of
           d # cs' \<Rightarrow>
             if d = CHR ''='' then cons_token (TPunct Le) (tokenize cs')
             else if d = CHR ''<'' then Inl Unmodelled
             else cons_token (TPunct Lt) (tokenize cs)
         | [] \<Rightarrow> cons_token (TPunct Lt) (tokenize cs))
      else if c = CHR ''>'' then
        (case cs of
           d # cs' \<Rightarrow>
             if d = CHR ''='' then cons_token (TPunct Ge) (tokenize cs')
             else if d = CHR ''>'' then Inl Unmodelled
             else cons_token (TPunct Gt) (tokenize cs)
         | [] \<Rightarrow> cons_token (TPunct Gt) (tokenize cs))
      else if c = CHR ''&'' then
        (case cs of
           d # cs' \<Rightarrow>
             if d = CHR ''&'' \<and> (cs' = [] \<or> hd cs' \<noteq> CHR ''='')
             then cons_token (TPunct AndAnd) (tokenize cs')
             else Inl Unmodelled
         | [] \<Rightarrow> Inl Unmodelled)
      else if c = CHR ''|'' then
        (case cs of
           d # cs' \<Rightarrow>
             if d = CHR ''|'' \<and> (cs' = [] \<or> hd cs' \<noteq> CHR ''='')
             then cons_token (TPunct OrOr) (tokenize cs')
             else Inl Unmodelled
         | [] \<Rightarrow> Inl Unmodelled)
      else Inl Unmodelled)"
  by pat_completeness auto
termination
  by (relation "measure length")
     (auto simp: le_imp_less_Suc length_dropWhile_le digit_is_word
           dest: dropWhile_shorter dropWhile_shorter2 dropWhile_shorter [OF sym]
                 dropWhile_shorter2 [OF sym])

declare tokenize.simps [simp del]

subsubsection \<open>Expressions\<close>

text \<open>
  The syntax tree. \<open>Compare\<close> carries one of the eight comparison operators.
\<close>

datatype expr =
    Lit jsval
  | Var string
  | Member expr string
  | Call expr "expr list"
  | Not expr
  | Compare punct expr expr
  | And expr expr
  | Or expr expr
  | Cond expr expr expr

text \<open>
  The binary operators by precedence, loosest first: \<^verbatim>\<open>||\<close>, \<^verbatim>\<open>&&\<close>, equality,
  relational. All are left associative.
\<close>

fun level_ops :: "nat \<Rightarrow> punct list" where
  "level_ops 0 = [OrOr]"
| "level_ops (Suc 0) = [AndAnd]"
| "level_ops (Suc (Suc 0)) = [EqEq, NotEq, EqEqEq, NotEqEq]"
| "level_ops (Suc (Suc (Suc n))) = [Lt, Gt, Le, Ge]"

definition mk_binary :: "punct \<Rightarrow> expr \<Rightarrow> expr \<Rightarrow> expr" where
  "mk_binary p l r = (if p = OrOr then Or l r else if p = AndAnd then And l r else Compare p l r)"

text \<open>A word in operand position: a literal or a name.\<close>

definition word_expr :: "string \<Rightarrow> expr" where
  "word_expr w =
     (if w = ''true'' then Lit (JBool True)
      else if w = ''false'' then Lit (JBool False)
      else if w = ''null'' then Lit JNull
      else Var w)"

text \<open>The next token, when it is the given punctuation.\<close>

definition expect :: "punct \<Rightarrow> token list \<Rightarrow> token list option" where
  "expect p ts = (case ts of [] \<Rightarrow> None | t # ts' \<Rightarrow> if t = TPunct p then Some ts' else None)"

text \<open>The next token, when it is one of the given operators.\<close>

definition operator :: "punct list \<Rightarrow> token list \<Rightarrow> (punct \<times> token list) option" where
  "operator ps ts =
     (case ts of
        TPunct p # ts' \<Rightarrow> if p \<in> set ps then Some (p, ts') else None
      | _ \<Rightarrow> None)"

text \<open>A literal or a name at the head of the input.\<close>

definition atom :: "token list \<Rightarrow> (expr \<times> token list) option" where
  "atom ts =
     (case ts of
        TWord w # ts' \<Rightarrow> Some (word_expr w, ts')
      | TNumber x # ts' \<Rightarrow> Some (Lit (JNum x), ts')
      | TString s # ts' \<Rightarrow> Some (Lit (JStr s), ts')
      | _ \<Rightarrow> None)"

text \<open>A property name after a dot.\<close>

definition name_after_dot :: "token list \<Rightarrow> (string \<times> token list) option" where
  "name_after_dot ts = (case ts of TWord w # ts' \<Rightarrow> Some (w, ts') | _ \<Rightarrow> None)"

text \<open>
  Recursive descent over the tokens. The first argument is fuel: every call passes on one
  less, and a parse that runs out of it is \<open>Unmodelled\<close>. A failure at a token of the
  fragment is a SyntaxError of JavaScript as well; the comma operator is \<open>Unmodelled\<close>.
\<close>

function (sequential) parse_expr :: "nat \<Rightarrow> token list \<Rightarrow> js_error + expr \<times> token list"
  and parse_binary :: "nat \<Rightarrow> nat \<Rightarrow> token list \<Rightarrow> js_error + expr \<times> token list"
  and parse_binary_rest :: "nat \<Rightarrow> nat \<Rightarrow> expr \<Rightarrow> token list \<Rightarrow> js_error + expr \<times> token list"
  and parse_unary :: "nat \<Rightarrow> token list \<Rightarrow> js_error + expr \<times> token list"
  and parse_postfix :: "nat \<Rightarrow> expr \<Rightarrow> token list \<Rightarrow> js_error + expr \<times> token list"
  and parse_args :: "nat \<Rightarrow> token list \<Rightarrow> js_error + expr list \<times> token list"
where
  "parse_expr 0 ts = Inl Unmodelled"
| "parse_expr (Suc n) ts =
     (case parse_binary n 0 ts of
        Inl x \<Rightarrow> Inl x
      | Inr (c, ts1) \<Rightarrow>
          (case expect Question ts1 of
             None \<Rightarrow> Inr (c, ts1)
           | Some ts2 \<Rightarrow>
               (case parse_expr n ts2 of
                  Inl x \<Rightarrow> Inl x
                | Inr (a, ts3) \<Rightarrow>
                    (case expect Colon ts3 of
                       None \<Rightarrow> Inl SyntaxError
                     | Some ts4 \<Rightarrow>
                         (case parse_expr n ts4 of
                            Inl x \<Rightarrow> Inl x
                          | Inr (b, ts5) \<Rightarrow> Inr (Cond c a b, ts5))))))"
| "parse_binary 0 lvl ts = Inl Unmodelled"
| "parse_binary (Suc n) lvl ts =
     (if 4 \<le> lvl then parse_unary n ts
      else (case parse_binary n (Suc lvl) ts of
              Inl x \<Rightarrow> Inl x
            | Inr (l, ts1) \<Rightarrow> parse_binary_rest n lvl l ts1))"
| "parse_binary_rest 0 lvl l ts = Inl Unmodelled"
| "parse_binary_rest (Suc n) lvl l ts =
     (case operator (level_ops lvl) ts of
        None \<Rightarrow> Inr (l, ts)
      | Some (p, ts1) \<Rightarrow>
          (case parse_binary n (Suc lvl) ts1 of
             Inl x \<Rightarrow> Inl x
           | Inr (r, ts2) \<Rightarrow> parse_binary_rest n lvl (mk_binary p l r) ts2))"
| "parse_unary 0 ts = Inl Unmodelled"
| "parse_unary (Suc n) ts =
     (case expect Bang ts of
        Some ts1 \<Rightarrow>
          (case parse_unary n ts1 of
             Inl x \<Rightarrow> Inl x
           | Inr (e, ts2) \<Rightarrow> Inr (Not e, ts2))
      | None \<Rightarrow>
          (case expect LParen ts of
             Some ts1 \<Rightarrow>
               (case parse_expr n ts1 of
                  Inl x \<Rightarrow> Inl x
                | Inr (e, ts2) \<Rightarrow>
                    (case expect RParen ts2 of
                       Some ts3 \<Rightarrow> parse_postfix n e ts3
                     | None \<Rightarrow>
                         if expect Comma ts2 = None then Inl SyntaxError else Inl Unmodelled))
           | None \<Rightarrow>
               (case atom ts of
                  Some (e, ts1) \<Rightarrow> parse_postfix n e ts1
                | None \<Rightarrow> Inl SyntaxError)))"
| "parse_postfix 0 e ts = Inl Unmodelled"
| "parse_postfix (Suc n) e ts =
     (case expect Dot ts of
        Some ts1 \<Rightarrow>
          (case name_after_dot ts1 of
             Some (w, ts2) \<Rightarrow> parse_postfix n (Member e w) ts2
           | None \<Rightarrow> Inl SyntaxError)
      | None \<Rightarrow>
          (case expect LParen ts of
             Some ts1 \<Rightarrow>
               (case parse_args n ts1 of
                  Inl x \<Rightarrow> Inl x
                | Inr (args, ts2) \<Rightarrow> parse_postfix n (Call e args) ts2)
           | None \<Rightarrow> Inr (e, ts)))"
| "parse_args 0 ts = Inl Unmodelled"
| "parse_args (Suc n) ts =
     (case expect RParen ts of
        Some ts1 \<Rightarrow> Inr ([], ts1)
      | None \<Rightarrow>
          (case parse_expr n ts of
             Inl x \<Rightarrow> Inl x
           | Inr (a, ts1) \<Rightarrow>
               (case expect Comma ts1 of
                  Some ts2 \<Rightarrow>
                    (case parse_args n ts2 of
                       Inl x \<Rightarrow> Inl x
                     | Inr (as, ts3) \<Rightarrow> Inr (a # as, ts3))
                | None \<Rightarrow>
                    (case expect RParen ts1 of
                       Some ts2 \<Rightarrow> Inr ([a], ts2)
                     | None \<Rightarrow> Inl SyntaxError))))"

  by pat_completeness auto
termination
  by (relation "measure (\<lambda>x. case x of
          Inl (Inl (n, ts)) \<Rightarrow> n
        | Inl (Inr (Inl (n, lvl, ts))) \<Rightarrow> n
        | Inl (Inr (Inr (n, lvl, l, ts))) \<Rightarrow> n
        | Inr (Inl (n, ts)) \<Rightarrow> n
        | Inr (Inr (Inl (n, e, ts))) \<Rightarrow> n
        | Inr (Inr (Inr (n, ts))) \<Rightarrow> n)") simp_all


text \<open>
  The expression of a condition text; \<open>None\<close> for a blank text, for which the function body
  is \<^verbatim>\<open>return ;\<close>. Eight units of fuel per token (and eight more) cover the descent
  through the precedence levels to every token.
\<close>

definition parse_condition :: "string \<Rightarrow> js_error + expr option" where
  "parse_condition src =
     (case tokenize src of
        Inl x \<Rightarrow> Inl x
      | Inr ts \<Rightarrow>
          if ts = [] then Inr None
          else (case parse_expr (8 * Suc (length ts)) ts of
                  Inl x \<Rightarrow> Inl x
                | Inr (e, rest) \<Rightarrow>
                    if rest = [] then Inr (Some e)
                    else if expect Comma rest = None then Inl SyntaxError
                    else Inl Unmodelled))"

subsubsection \<open>Evaluation\<close>


text \<open>ToNumber on the primitives that are not strings; \<open>None\<close> is NaN.\<close>

fun to_number :: "jsval \<Rightarrow> js_error + real option" where
  "to_number JUndefined = Inr None"
| "to_number JNull = Inr (Some 0)"
| "to_number (JBool b) = Inr (Some (if b then 1 else 0))"
| "to_number (JNum x) = Inr (Some x)"
| "to_number v = Inl Unmodelled"

fun is_object :: "jsval \<Rightarrow> bool" where
  "is_object (JObj kvs) = True"
| "is_object (JArr xs) = True"
| "is_object v = False"

fun is_string :: "jsval \<Rightarrow> bool" where
  "is_string (JStr s) = True"
| "is_string v = False"

text \<open>
  The relational operators. An object operand is converted through its methods and two
  strings compare as strings: both are outside the model. With \<^verbatim>\<open>undefined\<close> on one
  side the comparison is false.
\<close>

definition relational :: "(real \<Rightarrow> real \<Rightarrow> bool) \<Rightarrow> jsval \<Rightarrow> jsval \<Rightarrow> js_error + bool" where
  "relational r a b =
     (if is_object a \<or> is_object b then Inl Unmodelled
      else if a = JUndefined \<or> b = JUndefined then Inr False
      else (case (to_number a, to_number b) of
              (Inr (Some x), Inr (Some y)) \<Rightarrow> Inr (r x y)
            | _ \<Rightarrow> Inl Unmodelled))"

text \<open>
  \<^verbatim>\<open>==\<close>: \<^verbatim>\<open>null\<close> and \<^verbatim>\<open>undefined\<close> equal each other and nothing else; two
  strings by value; numbers and booleans as numbers.
\<close>

definition loose_equals :: "jsval \<Rightarrow> jsval \<Rightarrow> js_error + bool" where
  "loose_equals a b =
     (if nullish a \<or> nullish b then Inr (nullish a \<and> nullish b)
      else if is_object a \<or> is_object b then Inl Unmodelled
      else if is_string a \<and> is_string b then Inr (a = b)
      else (case (to_number a, to_number b) of
              (Inr (Some x), Inr (Some y)) \<Rightarrow> Inr (x = y)
            | _ \<Rightarrow> Inl Unmodelled))"

text \<open>
  \<^verbatim>\<open>===\<close> between the values of two expressions: two objects may be one object reached
  twice, which the values do not tell.
\<close>

definition strict_equals_expr :: "jsval \<Rightarrow> jsval \<Rightarrow> js_error + bool" where
  "strict_equals_expr a b =
     (if is_object a \<and> is_object b then Inl Unmodelled else Inr (strict_equals a b))"

definition negate :: "js_error + bool \<Rightarrow> js_error + bool" where
  "negate r = (case r of Inl x \<Rightarrow> Inl x | Inr b \<Rightarrow> Inr (\<not> b))"

fun compare_values :: "punct \<Rightarrow> jsval \<Rightarrow> jsval \<Rightarrow> js_error + bool" where
  "compare_values Lt a b = relational (<) a b"
| "compare_values Gt a b = relational (>) a b"
| "compare_values Le a b = relational (\<le>) a b"
| "compare_values Ge a b = relational (\<ge>) a b"
| "compare_values EqEq a b = loose_equals a b"
| "compare_values NotEq a b = negate (loose_equals a b)"
| "compare_values EqEqEq a b = strict_equals_expr a b"
| "compare_values NotEqEq a b = negate (strict_equals_expr a b)"
| "compare_values p a b = Inl Unmodelled"

text \<open>
  Reading \<^verbatim>\<open>v.k\<close> in an expression, for any name \<open>k\<close>. An object that has no own
  property \<open>k\<close> inherits the names of \<^verbatim>\<open>Object.prototype\<close>; the properties of strings,
  arrays, numbers and booleans other than \<^verbatim>\<open>length\<close> are not modelled.
\<close>

definition object_prototype_names :: "string list" where
  "object_prototype_names =
     [''constructor'', ''hasOwnProperty'', ''isPrototypeOf'', ''propertyIsEnumerable'',
      ''toLocaleString'', ''toString'', ''valueOf'', ''__proto__'', ''__defineGetter__'',
      ''__defineSetter__'', ''__lookupGetter__'', ''__lookupSetter__'']"

fun read_member :: "jsval \<Rightarrow> string \<Rightarrow> js_error + jsval" where
  "read_member JUndefined k = Inl TypeError"
| "read_member JNull k = Inl TypeError"
| "read_member (JObj kvs) k =
     (case map_of kvs k of
        Some v \<Rightarrow> Inr v
      | None \<Rightarrow> if k \<in> set object_prototype_names then Inl Unmodelled else Inr JUndefined)"
| "read_member (JStr s) k = (if k = ''length'' then Inr (JNum (real (length s))) else Inl Unmodelled)"
| "read_member (JArr xs) k = (if k = ''length'' then Inr (JNum (real (length xs))) else Inl Unmodelled)"
| "read_member v k = Inl Unmodelled"

text \<open>\<^verbatim>\<open>s.includes(t)\<close> on strings: \<open>t\<close> occurs in \<open>s\<close>.\<close>

fun is_prefix :: "string \<Rightarrow> string \<Rightarrow> bool" where
  "is_prefix [] s = True"
| "is_prefix (c # cs) [] = False"
| "is_prefix (c # cs) (d # ds) = (c = d \<and> is_prefix cs ds)"

fun str_includes :: "string \<Rightarrow> string \<Rightarrow> bool" where
  "str_includes [] t = (t = [])"
| "str_includes (c # cs) t = (is_prefix t (c # cs) \<or> str_includes cs t)"

text \<open>
  \<^verbatim>\<open>receiver.k(args)\<close> once the receiver and the arguments are values. Only
  \<^verbatim>\<open>includes\<close> of strings and arrays is modelled; no JSON value is a function, so
  calling a property of an object is a TypeError.
\<close>

fun call_method :: "jsval \<Rightarrow> string \<Rightarrow> jsval list \<Rightarrow> js_error + jsval" where
  "call_method (JStr s) k args =
     (if k = ''includes'' then
        (case args of
           [JStr t] \<Rightarrow> Inr (JBool (str_includes s t))
         | _ \<Rightarrow> Inl Unmodelled)
      else Inl Unmodelled)"
| "call_method (JArr xs) k args =
     (if k = ''includes'' then
        (case args of
           [] \<Rightarrow> Inr (JBool (list_ex (strict_equals JUndefined) xs))
         | [a] \<Rightarrow> if is_object a then Inl Unmodelled
                  else Inr (JBool (list_ex (\<lambda>x. strict_equals x a) xs))
         | _ \<Rightarrow> Inl Unmodelled)
      else Inl Unmodelled)"
| "call_method (JObj kvs) k args =
     (if map_of kvs k = None \<and> k \<in> set object_prototype_names then Inl Unmodelled
      else Inl TypeError)"
| "call_method JUndefined k args = Inl TypeError"
| "call_method JNull k args = Inl TypeError"
| "call_method v k args = Inl Unmodelled"

text \<open>The names the function body binds by destructuring \<^verbatim>\<open>context\<close>.\<close>

definition bound_names :: "string list" where
  "bound_names = [''fingerprint'', ''behavioral'', ''facial'', ''sessionId'', ''timestamp'']"

text \<open>
  The value of an expression for the context \<open>ctx\<close>. \<^verbatim>\<open>&&\<close> and \<^verbatim>\<open>||\<close> return one of
  their operands and do not evaluate the second when the first decides. A name that the
  body does not bind is a global of the host and \<open>Unmodelled\<close>, but for \<^verbatim>\<open>undefined\<close>.
\<close>

fun eval_expr :: "jsval \<Rightarrow> expr \<Rightarrow> js_error + jsval"
  and eval_args :: "jsval \<Rightarrow> expr list \<Rightarrow> js_error + jsval list"
where
  "eval_expr ctx (Lit v) = Inr v"
| "eval_expr ctx (Var x) =
     (if x = ''undefined'' then Inr JUndefined
      else if x = ''context'' then Inr ctx
      else if x \<in> set bound_names then Inr (own_prop ctx x)
      else Inl Unmodelled)"
| "eval_expr ctx (Member e k) =
     (case eval_expr ctx e of Inl x \<Rightarrow> Inl x | Inr v \<Rightarrow> read_member v k)"
| "eval_expr ctx (Call f args) =
     (case f of
        Member e k \<Rightarrow>
          (case eval_expr ctx e of
             Inl x \<Rightarrow> Inl x
           | Inr v \<Rightarrow>
               if nullish v then Inl TypeError
               else (case eval_args ctx args of
                       Inl x \<Rightarrow> Inl x
                     | Inr vs \<Rightarrow> call_method v k vs))
      | _ \<Rightarrow>
          (case eval_expr ctx f of
             Inl x \<Rightarrow> Inl x
           | Inr v \<Rightarrow>
               (case eval_args ctx args of
                  Inl x \<Rightarrow> Inl x
                | Inr vs \<Rightarrow> Inl TypeError)))"
| "eval_expr ctx (Not e) =
     (case eval_expr ctx e of Inl x \<Rightarrow> Inl x | Inr v \<Rightarrow> Inr (JBool (\<not> truthy v)))"
| "eval_expr ctx (Compare p a b) =
     (case eval_expr ctx a of
        Inl x \<Rightarrow> Inl x
      | Inr va \<Rightarrow>
          (case eval_expr ctx b of
             Inl x \<Rightarrow> Inl x
           | Inr vb \<Rightarrow> (case compare_values p va vb of Inl x \<Rightarrow> Inl x | Inr r \<Rightarrow> Inr (JBool r))))"
| "eval_expr ctx (And a b) =
     (case eval_expr ctx a of
        Inl x \<Rightarrow> Inl x
      | Inr va \<Rightarrow> if truthy va then eval_expr ctx b else Inr va)"
| "eval_expr ctx (Or a b) =
     (case eval_expr ctx a of
        Inl x \<Rightarrow> Inl x
      | Inr va \<Rightarrow> if truthy va then Inr va else eval_expr ctx b)"
| "eval_expr ctx (Cond c a b) =
     (case eval_expr ctx c of
        Inl x \<Rightarrow> Inl x
      | Inr vc \<Rightarrow> if truthy vc then eval_expr ctx a else eval_expr ctx b)"
| "eval_args ctx [] = Inr []"
| "eval_args ctx (a # as) =
     (case eval_expr ctx a of
        Inl x \<Rightarrow> Inl x
      | Inr v \<Rightarrow> (case eval_args ctx as of Inl x \<Rightarrow> Inl x | Inr vs \<Rightarrow> Inr (v # vs)))"

text \<open>
  The constructor of the fragment. Calling the function destructures the context first,
  which throws a TypeError on \<^verbatim>\<open>null\<close> and \<^verbatim>\<open>undefined\<close>.
\<close>

definition js_fragment :: "'h function_ctor" where
  "js_fragment src =
     (case parse_condition src of
        Inl x \<Rightarrow> Inl x
      | Inr None \<Rightarrow> Inr (\<lambda>h ctx. if nullish ctx then Inl TypeError else Inr JUndefined)
      | Inr (Some e) \<Rightarrow>
          Inr (\<lambda>h ctx. if nullish ctx then Inl TypeError else eval_expr ctx e))"


section \<open>Rule evaluation\<close>


text \<open>
  A result object of \<^verbatim>\<open>evaluateRules\<close>. A key the object does not have is
  \<^verbatim>\<open>undefined\<close>; \<open>error\<close> is \<open>None\<close> when the object has no \<^verbatim>\<open>error\<close> key, and
  otherwise the exception whose message the key holds (a message that starts with
  \<^verbatim>\<open>Failed to evaluate rule\<close>, so never the empty string).
\<close>

record rule_result =
  r_id :: jsval
  r_name :: jsval
  passed :: bool
  weight :: jsval
  score :: jsval
  action :: jsval
  condition :: jsval
  description :: jsval
  error :: "error option"

text \<open>\<^verbatim>\<open>_createSafeContext(data)\<close>: an absent section becomes an empty object.\<close>

definition createSafeContext :: "jsval \<Rightarrow> js_error + jsval" where
  "createSafeContext data =
     (if nullish data then Inl TypeError
      else Inr (JObj [(''fingerprint'', js_or (own_prop data ''fingerprint'') (JObj [])),
                      (''behavioral'', js_or (own_prop data ''behavioral'') (JObj [])),
                      (''facial'', js_or (own_prop data ''facial'') (JObj [])),
                      (''sessionId'', own_prop data ''sessionId''),
                      (''timestamp'', own_prop data ''timestamp'')]))"

text \<open>
  \<^verbatim>\<open>_evaluateCondition(condition, context)\<close>. Everything happens inside one
  \<^verbatim>\<open>try\<close>: a condition that is not a string has no \<^verbatim>\<open>replace\<close> method, the
  constructor may throw, the call may throw; each exception is caught and the result is
  \<^verbatim>\<open>false\<close>. The argument \<open>h\<close> is the state of the host at the call of the function.
\<close>

definition evaluateCondition :: "'h function_ctor \<Rightarrow> 'h \<Rightarrow> jsval \<Rightarrow> jsval \<Rightarrow> bool" where
  "evaluateCondition new_Function h cond context =
     (case cond of
        JStr c \<Rightarrow>
          (case new_Function (replace_paths c) of
             Inl x \<Rightarrow> False
           | Inr func \<Rightarrow>
               (case func h context of Inl x \<Rightarrow> False | Inr result \<Rightarrow> truthy result))
      | _ \<Rightarrow> False)"

text \<open>
  \<^verbatim>\<open>_evaluateRule(rule, data)\<close>. For a rule that is \<^verbatim>\<open>null\<close> or \<^verbatim>\<open>undefined\<close> the
  \<^verbatim>\<open>try\<close> block throws (at \<^verbatim>\<open>_createSafeContext(data)\<close> or at \<^verbatim>\<open>rule.condition\<close>)
  and the \<^verbatim>\<open>catch\<close> block throws again when it reads \<^verbatim>\<open>rule.id\<close> for its message:
  the TypeError leaves the function as it is. For any other rule the only statement of
  the \<^verbatim>\<open>try\<close> block that can throw is \<^verbatim>\<open>_createSafeContext(data)\<close>, and the
  \<^verbatim>\<open>catch\<close> block wraps its exception.
\<close>

definition evaluateRule :: "'h function_ctor \<Rightarrow> 'h \<Rightarrow> jsval \<Rightarrow> jsval \<Rightarrow> error + rule_result" where
  "evaluateRule new_Function h rule data =
     (if nullish rule then Inl (Host TypeError)
      else
        (case createSafeContext data of
           Inl x \<Rightarrow> Inl (FailedToEvaluate (own_prop rule ''id'') (Host x))
         | Inr context \<Rightarrow>
             let passed = evaluateCondition new_Function h (own_prop rule ''condition'') context;
                 score = (if passed then own_prop rule ''weight'' else JNum 0)
             in Inr \<lparr>r_id = own_prop rule ''id'', r_name = own_prop rule ''name'',
                     passed = passed, weight = own_prop rule ''weight'', score = score,
                     action = own_prop rule ''action'', condition = own_prop rule ''condition'',
                     description = own_prop rule ''description'', error = None\<rparr>))"

text \<open>
  \<^verbatim>\<open>evaluateRules(data)\<close> over \<^verbatim>\<open>this.rules\<close>. Reading \<^verbatim>\<open>rule.enabled\<close> of a
  \<^verbatim>\<open>null\<close> entry throws outside the \<^verbatim>\<open>try\<close>; a rule that is not enabled is
  skipped; an exception of \<^verbatim>\<open>_evaluateRule\<close> becomes a result with \<^verbatim>\<open>error\<close>.
  The host changes while the loop runs (the loop awaits each rule, the clock goes on, a
  condition may have used the random generator): \<open>host i\<close> is the state of the host when
  the loop is at the rule of index \<open>i\<close> of the store, and the model takes any sequence of
  states.
\<close>

fun evaluateRules ::
  "'h function_ctor \<Rightarrow> (nat \<Rightarrow> 'h) \<Rightarrow> jsval list \<Rightarrow> jsval \<Rightarrow> js_error + rule_result list" where
  "evaluateRules new_Function host [] data = Inr []"
| "evaluateRules new_Function host (rule # rs) data =
     (if nullish rule then Inl TypeError
      else if \<not> truthy (own_prop rule ''enabled'')
        then evaluateRules new_Function (\<lambda>i. host (Suc i)) rs data
      else
        (let result =
               (case evaluateRule new_Function (host 0) rule data of
                  Inr r \<Rightarrow> r
                | Inl e \<Rightarrow>
                    \<lparr>r_id = own_prop rule ''id'', r_name = own_prop rule ''name'',
                     passed = False, weight = JNum 0, score = JNum 0,
                     action = JUndefined, condition = JUndefined,
                     description = JUndefined, error = Some e\<rparr>)
         in (case evaluateRules new_Function (\<lambda>i. host (Suc i)) rs data of
               Inl x \<Rightarrow> Inl x
             | Inr results \<Rightarrow> Inr (result # results))))"

section \<open>The scoring service\<close>

subsection \<open>The arithmetic of the rule score\<close>

text \<open>
  The numbers of JavaScript are the values of the binary64 format: finite values, two
  infinities and NaN. The rule score adds, divides and multiplies weights that come from
  the rules file, so its arithmetic is modelled as the host computes it: every operation
  returns the exact result rounded to the nearest binary64 value, ties to the even
  mantissa, and a result beyond the largest finite value is an infinity. The sign of a
  zero is not modelled; it would show only in a division by zero, which the rule score
  does not reach.
\<close>

datatype double = Finite real | PosInf | NegInf | NaN

text \<open>The nearest integer, ties to the even one.\<close>

definition round_half_even :: "real \<Rightarrow> int" where
  "round_half_even x =
     (let n = \<lfloor>x\<rfloor>; d = x - of_int n
      in if d < 1 / 2 then n else if 1 / 2 < d then n + 1 else if even n then n else n + 1)"

text \<open>
  The power of two at the start of the binade of \<open>a\<close>: the largest \<open>2 ^ e \<le> a\<close>, with the
  exponent \<open>e\<close> kept between \<open>-1022\<close> (below it the values are subnormal and share the
  spacing of that binade) and \<open>1023\<close>. The first argument bounds the search.
\<close>

fun halvings :: "nat \<Rightarrow> real \<Rightarrow> real" where
  "halvings 0 a = 1"
| "halvings (Suc n) a = (if a < 2 then 1 else 2 * halvings n (a / 2))"

fun doublings :: "nat \<Rightarrow> real \<Rightarrow> real" where
  "doublings 0 a = 1"
| "doublings (Suc n) a = (if 1 \<le> a then 1 else doublings n (2 * a) / 2)"

definition binade :: "real \<Rightarrow> real" where
  "binade a = (if 1 \<le> a then halvings 1023 a else doublings 1022 a)"

text \<open>The distance of two neighbours in the binade of \<open>a\<close>: the mantissa has 53 bits.\<close>

definition spacing :: "real \<Rightarrow> real" where
  "spacing a = binade a / 2 ^ 52"

text \<open>
  Rounding a real to binary64. A magnitude of \<open>2 ^ 1024 - 2 ^ 970\<close> or more (the largest
  finite value plus half a spacing) is rounded to an infinity.
\<close>

definition round64 :: "real \<Rightarrow> double" where
  "round64 x =
     (if 2 ^ 1024 - 2 ^ 970 \<le> \<bar>x\<bar> then (if 0 < x then PosInf else NegInf)
      else if x = 0 then Finite 0
      else Finite (sgn x * (of_int (round_half_even (\<bar>x\<bar> / spacing \<bar>x\<bar>)) * spacing \<bar>x\<bar>)))"

text \<open>\<^verbatim>\<open>x + y\<close>\<close>

fun add64 :: "double \<Rightarrow> double \<Rightarrow> double" where
  "add64 (Finite a) (Finite b) = round64 (a + b)"
| "add64 NaN y = NaN"
| "add64 x NaN = NaN"
| "add64 PosInf NegInf = NaN"
| "add64 NegInf PosInf = NaN"
| "add64 PosInf y = PosInf"
| "add64 x PosInf = PosInf"
| "add64 NegInf y = NegInf"
| "add64 x NegInf = NegInf"

text \<open>\<^verbatim>\<open>x * y\<close>: an infinity times zero is NaN.\<close>

fun mul64 :: "double \<Rightarrow> double \<Rightarrow> double" where
  "mul64 (Finite a) (Finite b) = round64 (a * b)"
| "mul64 NaN y = NaN"
| "mul64 x NaN = NaN"
| "mul64 (Finite a) y =
     (if a = 0 then NaN else if (0 < a) = (y = PosInf) then PosInf else NegInf)"
| "mul64 x (Finite b) =
     (if b = 0 then NaN else if (0 < b) = (x = PosInf) then PosInf else NegInf)"
| "mul64 x y = (if x = y then PosInf else NegInf)"

text \<open>
  \<^verbatim>\<open>x / y\<close>: an infinity divided by an infinity and zero divided by zero are NaN. A
  zero divisor is taken as the positive zero.
\<close>

fun div64 :: "double \<Rightarrow> double \<Rightarrow> double" where
  "div64 (Finite a) (Finite b) =
     (if b = 0 then (if a = 0 then NaN else if 0 < a then PosInf else NegInf)
      else round64 (a / b))"
| "div64 NaN y = NaN"
| "div64 x NaN = NaN"
| "div64 (Finite a) y = Finite 0"
| "div64 x (Finite b) = (if (x = PosInf) = (0 \<le> b) then PosInf else NegInf)"
| "div64 x y = NaN"

text \<open>\<^verbatim>\<open>Math.min(x, y)\<close> and \<^verbatim>\<open>Math.max(x, y)\<close>: NaN when an argument is NaN.\<close>

fun Math_min :: "double \<Rightarrow> double \<Rightarrow> double" where
  "Math_min (Finite a) (Finite b) = Finite (min a b)"
| "Math_min NaN y = NaN"
| "Math_min x NaN = NaN"
| "Math_min NegInf y = NegInf"
| "Math_min x NegInf = NegInf"
| "Math_min PosInf y = y"
| "Math_min x PosInf = x"

fun Math_max :: "double \<Rightarrow> double \<Rightarrow> double" where
  "Math_max (Finite a) (Finite b) = Finite (max a b)"
| "Math_max NaN y = NaN"
| "Math_max x NaN = NaN"
| "Math_max PosInf y = PosInf"
| "Math_max x PosInf = PosInf"
| "Math_max NegInf y = y"
| "Math_max x NegInf = x"

subsection \<open>The sub-scores\<close>

text \<open>\<^verbatim>\<open>Math.max(0, Math.min(100, x))\<close> on a number of the model.\<close>

definition clamp :: "real \<Rightarrow> real" where
  "clamp x = max 0 (min 100 x)"

text \<open>
  \<^verbatim>\<open>_calculateRuleScore\<close>: the loop over the results. A result with an error is
  skipped. The score and the weight of the others are added as numbers, the weight
  through \<^verbatim>\<open>Math.abs\<close>, which is exact; a score or a weight that is not a number is
  outside the model. The value of a numeric field is a finite binary64 value; the model
  takes any real for it and rounds the results of the arithmetic.
\<close>

fun accumulate :: "rule_result list \<Rightarrow> double \<Rightarrow> double \<Rightarrow> js_error + double \<times> double" where
  "accumulate [] totalScore totalWeight = Inr (totalScore, totalWeight)"
| "accumulate (result # results) totalScore totalWeight =
     (if error result \<noteq> None then accumulate results totalScore totalWeight
      else (case (score result, weight result) of
              (JNum s, JNum w) \<Rightarrow>
                accumulate results (add64 totalScore (Finite s)) (add64 totalWeight (Finite \<bar>w\<bar>))
            | _ \<Rightarrow> Inl Unmodelled))"

text \<open>
  \<^verbatim>\<open>_calculateRuleScore(ruleResults)\<close>. \<^verbatim>\<open>totalWeight === 0\<close> is false for an
  infinite total.
\<close>

definition calculateRuleScore :: "rule_result list \<Rightarrow> js_error + double" where
  "calculateRuleScore ruleResults =
     (if ruleResults = [] then Inr (Finite 50)
      else (case accumulate ruleResults (Finite 0) (Finite 0) of
              Inl x \<Rightarrow> Inl x
            | Inr (totalScore, totalWeight) \<Rightarrow>
                if totalWeight = Finite 0 then Inr (Finite 50)
                else Inr (Math_max (Finite 0)
                            (Math_min (Finite 100)
                               (mul64 (add64 (div64 totalScore totalWeight) (Finite 1))
                                  (Finite 50))))))"

text \<open>\<^verbatim>\<open>v > c\<close> and \<^verbatim>\<open>v < c\<close> for a number \<open>c\<close>.\<close>

definition gt :: "jsval \<Rightarrow> real \<Rightarrow> js_error + bool" where
  "gt v c = relational (>) v (JNum c)"

definition lt :: "jsval \<Rightarrow> real \<Rightarrow> js_error + bool" where
  "lt v c = relational (<) v (JNum c)"

text \<open>\<^verbatim>\<open>a && b\<close> on two tests; the second is not reached when the first fails.\<close>

definition both :: "js_error + bool \<Rightarrow> js_error + bool \<Rightarrow> js_error + bool" where
  "both a b = (case a of Inl x \<Rightarrow> Inl x | Inr t \<Rightarrow> if t then b else Inr False)"

text \<open>
  What \<^verbatim>\<open>if (a) score += x; else if (b) score += y;\<close> adds to the score.
\<close>

definition step :: "js_error + bool \<Rightarrow> real \<Rightarrow> js_error + bool \<Rightarrow> real \<Rightarrow> js_error + real" where
  "step a x b y =
     (case a of
        Inl e \<Rightarrow> Inl e
      | Inr t \<Rightarrow> if t then Inr x
                 else (case b of Inl e \<Rightarrow> Inl e | Inr u \<Rightarrow> if u then Inr y else Inr 0))"

text \<open>The statements in sequence: the first exception ends the function.\<close>

fun add_steps :: "real \<Rightarrow> (js_error + real) list \<Rightarrow> js_error + real" where
  "add_steps s [] = Inr s"
| "add_steps s (d # ds) = (case d of Inl e \<Rightarrow> Inl e | Inr x \<Rightarrow> add_steps (s + x) ds)"

text \<open>The final \<^verbatim>\<open>return Math.max(0, Math.min(100, score))\<close>.\<close>

definition clamped :: "js_error + real \<Rightarrow> js_error + real" where
  "clamped r = (case r of Inl e \<Rightarrow> Inl e | Inr x \<Rightarrow> Inr (clamp x))"

text \<open>\<^verbatim>\<open>_calculateBehavioralScore(behavioral)\<close>\<close>

definition calculateBehavioralScore :: "jsval \<Rightarrow> js_error + real" where
  "calculateBehavioralScore behavioral =
     (if \<not> truthy behavioral then Inr 30
      else
        let duration = js_or (own_prop behavioral ''duration'') (JNum 0);
            eventCount = js_or (own_prop behavioral ''totalEvents'') (JNum 0);
            metrics = js_or (own_prop behavioral ''metrics'') (JObj []);
            clickFreq = js_or (own_prop metrics ''clickFrequency'') (JNum 0);
            scrollFreq = js_or (own_prop metrics ''scrollFrequency'') (JNum 0);
            keystrokeFreq = js_or (own_prop metrics ''keystrokeFrequency'') (JNum 0);
            mouseDistance = js_or (own_prop metrics ''mouseMovementDistance'') (JNum 0)
        in clamped (add_steps 50
             [step (gt duration 60000) 10 (lt duration 10000) (- 20),
              step (gt eventCount 20) 10 (lt eventCount 5) (- 15),
              step (both (gt clickFreq 0.1) (lt clickFreq 2.0)) 5 (gt clickFreq 5.0) (- 10),
              step (both (gt scrollFreq 0.05) (lt scrollFreq 1.0)) 5 (gt scrollFreq 3.0) (- 10),
              step (both (gt keystrokeFreq 0.1) (lt keystrokeFreq 3.0)) 5
                   (gt keystrokeFreq 10.0) (- 15),
              step (gt mouseDistance 100) 5 (lt mouseDistance 10) (- 10)]))"

definition requiredFields :: "string list" where
  "requiredFields =
     [''userAgent'', ''language'', ''platform'', ''screenResolution'',
      ''timezone'', ''canvasFingerprint'', ''webglFingerprint'', ''audioFingerprint'']"

text \<open>\<^verbatim>\<open>fingerprint[field] && fingerprint[field] !== s\<close>\<close>

definition present_and_not :: "jsval \<Rightarrow> string \<Rightarrow> string \<Rightarrow> bool" where
  "present_and_not obj field s =
     (truthy (own_prop obj field) \<and> \<not> strict_equals (own_prop obj field) (JStr s))"

text \<open>\<^verbatim>\<open>obj[field] && obj[field].length > n\<close>\<close>

definition longer_than :: "jsval \<Rightarrow> string \<Rightarrow> real \<Rightarrow> js_error + bool" where
  "longer_than obj field n =
     (if truthy (own_prop obj field) then gt (own_prop (own_prop obj field) ''length'') n
      else Inr False)"

text \<open>\<^verbatim>\<open>toLowerCase\<close> on ASCII letters.\<close>

definition to_lower :: "char \<Rightarrow> char" where
  "to_lower c =
     (let n = (of_char c :: nat) in if 65 \<le> n \<and> n \<le> 90 then char_of (n + 32) else c)"

definition suspiciousPatterns :: "string list" where
  "suspiciousPatterns = [''bot'', ''crawler'', ''spider'', ''scraper'']"

text \<open>
  The penalty block: \<^verbatim>\<open>toLowerCase\<close> exists on strings only, on any other truthy value
  the call throws a TypeError. The loop subtracts 30 at the first pattern found.
\<close>

definition suspicious_penalty :: "jsval \<Rightarrow> js_error + real" where
  "suspicious_penalty userAgent =
     (if \<not> truthy userAgent then Inr 0
      else (case userAgent of
              JStr s \<Rightarrow>
                if list_ex (str_includes (map to_lower s)) suspiciousPatterns
                then Inr (- 30) else Inr 0
            | _ \<Rightarrow> Inl TypeError))"

text \<open>What \<^verbatim>\<open>if (a) score += x;\<close> adds to the score.\<close>

definition bonus :: "js_error + bool \<Rightarrow> real \<Rightarrow> js_error + real" where
  "bonus a x = step a x (Inr False) 0"

text \<open>\<^verbatim>\<open>_calculateFingerprintScore(fingerprint)\<close>\<close>

definition calculateFingerprintScore :: "jsval \<Rightarrow> js_error + real" where
  "calculateFingerprintScore fingerprint =
     (if \<not> truthy fingerprint then Inr 0
      else
        let completeness =
              length (filter (\<lambda>field. present_and_not fingerprint field ''unknown'')
                        requiredFields)
        in clamped (add_steps 50
             [Inr (real completeness / real (length requiredFields) * 30),
              bonus (longer_than fingerprint ''canvasFingerprint'' 100) 5,
              bonus (Inr (present_and_not fingerprint ''webglFingerprint''
                            ''webgl_not_supported'')) 5,
              bonus (Inr (present_and_not fingerprint ''audioFingerprint'' ''audio_error'')) 5,
              bonus (longer_than fingerprint ''fonts'' 5) 5,
              suspicious_penalty (own_prop fingerprint ''userAgent'')]))"

text \<open>\<^verbatim>\<open>_calculateFacialScore(facial)\<close>\<close>

definition calculateFacialScore :: "jsval \<Rightarrow> real" where
  "calculateFacialScore facial =
     (if \<not> truthy facial then 50
      else if truthy (own_prop facial ''error'') then 40
      else if truthy (own_prop facial ''imageData'') then 80
      else 50)"

text \<open>
  \<^verbatim>\<open>now - data.timestamp\<close> compared with a bound: false when the difference is NaN.
\<close>

definition age_test :: "(real \<Rightarrow> real \<Rightarrow> bool) \<Rightarrow> real \<Rightarrow> jsval \<Rightarrow> real \<Rightarrow> js_error + bool" where
  "age_test r now ts bound =
     (case to_number ts of
        Inl e \<Rightarrow> Inl e
      | Inr None \<Rightarrow> Inr False
      | Inr (Some t) \<Rightarrow> Inr (r (now - t) bound))"

text \<open>The consistency block of \<^verbatim>\<open>_calculateDataQualityScore\<close>.\<close>

definition consistent :: "jsval \<Rightarrow> js_error + bool" where
  "consistent data =
     (if truthy (own_prop data ''fingerprint'') \<and> truthy (own_prop data ''behavioral'')
         \<and> truthy (own_prop (own_prop data ''fingerprint'') ''timestamp'')
         \<and> truthy (own_prop (own_prop data ''behavioral'') ''startTime'')
      then (case (to_number (own_prop (own_prop data ''fingerprint'') ''timestamp''),
                  to_number (own_prop (own_prop data ''behavioral'') ''startTime'')) of
              (Inr (Some a), Inr (Some b)) \<Rightarrow> Inr (\<bar>a - b\<bar> < 300000)
            | _ \<Rightarrow> Inl Unmodelled)
      else Inr False)"

text \<open>\<^verbatim>\<open>_calculateDataQualityScore(data)\<close>; \<open>now\<close> is the value of \<^verbatim>\<open>Date.now()\<close>.\<close>

definition calculateDataQualityScore :: "real \<Rightarrow> jsval \<Rightarrow> js_error + real" where
  "calculateDataQualityScore now data =
     clamped (add_steps 50
       [step (age_test (<) now (own_prop data ''timestamp'') 60000) 10
             (age_test (>) now (own_prop data ''timestamp'') 300000) (- 20),
        bonus (Inr (truthy (own_prop data ''fingerprint''))) 10,
        bonus (Inr (truthy (own_prop data ''behavioral''))) 10,
        bonus (Inr (truthy (own_prop data ''facial'')
                    \<and> \<not> truthy (own_prop (own_prop data ''facial'') ''error''))) 10,
        bonus (consistent data) 5])"

text \<open>
  The five sub-scores: the object passed to \<^verbatim>\<open>_combineScores\<close> and returned as
  \<^verbatim>\<open>breakdown\<close> (keys \<^verbatim>\<open>rule\<close>, \<^verbatim>\<open>behavioral\<close>, \<^verbatim>\<open>fingerprint\<close>, \<^verbatim>\<open>facial\<close>,
  \<^verbatim>\<open>dataQuality\<close>).
\<close>

record scores =
  rule_score :: real
  behavioral_score :: real
  fingerprint_score :: real
  facial_score :: real
  data_quality_score :: real

text \<open>
  \<^verbatim>\<open>_combineScores\<close>. The five sub-scores are numbers, so the test against
  \<^verbatim>\<open>null\<close> and \<^verbatim>\<open>undefined\<close> holds for each of them.
\<close>

definition combineScores :: "scores \<Rightarrow> real" where
  "combineScores s =
     (let weightedScore = rule_score s * 0.4 + behavioral_score s * 0.25
                          + fingerprint_score s * 0.2 + facial_score s * 0.1
                          + data_quality_score s * 0.05;
          totalWeight = 0.4 + 0.25 + 0.2 + 0.1 + 0.05
      in if totalWeight > 0 then weightedScore / totalWeight else 50)"

text \<open>\<^verbatim>\<open>_generateReasons(scores)\<close>, with \<^verbatim>\<open>scores.finalScore\<close> as second argument.\<close>

definition generateReasons :: "scores \<Rightarrow> real \<Rightarrow> string list" where
  "generateReasons s finalScore =
     [if finalScore \<ge> 80 then ''High confidence score based on comprehensive data analysis''
      else if finalScore \<ge> 60 then ''Moderate confidence score with some risk factors''
      else if finalScore \<ge> 40 then ''Low confidence score with multiple risk factors''
      else ''Very low confidence score with significant risk factors'']
     @ (if rule_score s < 40 then [''Multiple security rules failed''] else [])
     @ (if behavioral_score s < 40 then [''Insufficient or suspicious behavioral data''] else [])
     @ (if fingerprint_score s < 40 then [''Incomplete or suspicious device fingerprint''] else [])
     @ (if facial_score s \<ge> 80 then [''Facial verification completed successfully''] else [])
     @ (if data_quality_score s < 40 then [''Poor data quality or stale information''] else [])"

text \<open>The object \<^verbatim>\<open>calculateScore\<close> returns; \<open>final_score\<close> is its key \<^verbatim>\<open>score\<close>.\<close>

record score_result =
  final_score :: real
  reasons :: "string list"
  breakdown :: scores

text \<open>
  \<^verbatim>\<open>calculateScore(data, ruleResults)\<close>, with the clock reading \<open>now\<close> of
  \<^verbatim>\<open>_calculateDataQualityScore\<close>. Reading \<^verbatim>\<open>data.behavioral\<close> of \<^verbatim>\<open>null\<close> throws;
  every exception is rethrown as \<^verbatim>\<open>Scoring calculation failed\<close>. The scores after
  the rule score are numbers of the model: a rule score that is NaN (it makes the final
  score NaN) is \<open>Unmodelled\<close> here.
\<close>

definition calculateScore :: "real \<Rightarrow> jsval \<Rightarrow> rule_result list \<Rightarrow> error + score_result" where
  "calculateScore now data ruleResults =
     (case calculateRuleScore ruleResults of
        Inl e \<Rightarrow> Inl (ScoringFailed (Host e))
      | Inr PosInf \<Rightarrow> Inl (ScoringFailed (Host Unmodelled))
      | Inr NegInf \<Rightarrow> Inl (ScoringFailed (Host Unmodelled))
      | Inr NaN \<Rightarrow> Inl (ScoringFailed (Host Unmodelled))
      | Inr (Finite ruleScore) \<Rightarrow>
     (if nullish data then Inl (ScoringFailed (Host TypeError))
      else
        (case calculateBehavioralScore (own_prop data ''behavioral'') of
           Inl e \<Rightarrow> Inl (ScoringFailed (Host e))
         | Inr behavioralScore \<Rightarrow>
        (case calculateFingerprintScore (own_prop data ''fingerprint'') of
           Inl e \<Rightarrow> Inl (ScoringFailed (Host e))
         | Inr fingerprintScore \<Rightarrow>
        (let facialScore = calculateFacialScore (own_prop data ''facial'')
         in (case calculateDataQualityScore now data of
               Inl e \<Rightarrow> Inl (ScoringFailed (Host e))
             | Inr dataQualityScore \<Rightarrow>
                 let s = \<lparr>rule_score = ruleScore, behavioral_score = behavioralScore,
                          fingerprint_score = fingerprintScore, facial_score = facialScore,
                          data_quality_score = dataQualityScore\<rparr>;
                     finalScore = combineScores s
                 in Inr \<lparr>final_score = clamp finalScore,
                         reasons = generateReasons s finalScore,
                         breakdown = s\<rparr>))))))"

text \<open>
  The fields of \<^verbatim>\<open>ScoringService\<close>; \<open>thresholds\<close> is the property list of the object
  \<^verbatim>\<open>this.thresholds\<close>.
\<close>

record scoring_service =
  ruleEngine :: rule_engine
  thresholds :: "(string \<times> jsval) list"

text \<open>\<^verbatim>\<open>DEFAULT_THRESHOLDS\<close> of the shared constants.\<close>

definition DEFAULT_THRESHOLDS :: "(string \<times> jsval) list" where
  "DEFAULT_THRESHOLDS = [(''ALLOW'', JNum 80), (''REVIEW'', JNum 50), (''DENY'', JNum 0)]"

text \<open>\<^verbatim>\<open>constructor(ruleEngine)\<close>\<close>

definition new_ScoringService :: "rule_engine \<Rightarrow> scoring_service" where
  "new_ScoringService engine = \<lparr>ruleEngine = engine, thresholds = DEFAULT_THRESHOLDS\<rparr>"

text \<open>
  \<^verbatim>\<open>getDecision(score)\<close> for a number: the results are the strings of
  \<^verbatim>\<open>DECISION_TYPES\<close>.
\<close>

definition getDecision :: "scoring_service \<Rightarrow> real \<Rightarrow> js_error + string" where
  "getDecision svc s =
     (case relational (\<ge>) (JNum s) (own_prop (JObj (thresholds svc)) ''allow'') of
        Inl e \<Rightarrow> Inl e
      | Inr a \<Rightarrow>
          if a then Inr ''allow''
          else (case relational (\<ge>) (JNum s) (own_prop (JObj (thresholds svc)) ''review'') of
                  Inl e \<Rightarrow> Inl e
                | Inr r \<Rightarrow> if r then Inr ''review'' else Inr ''deny''))"

text \<open>
  The own properties \<^verbatim>\<open>{...v}\<close> copies: those of an object, none of a number, a
  boolean, \<^verbatim>\<open>null\<close> or \<^verbatim>\<open>undefined\<close>. The indexed properties of a string or an
  array are not modelled.
\<close>

fun spread :: "jsval \<Rightarrow> js_error + (string \<times> jsval) list" where
  "spread (JObj kvs) = Inr kvs"
| "spread (JStr s) = (if s = [] then Inr [] else Inl Unmodelled)"
| "spread (JArr xs) = (if xs = [] then Inr [] else Inl Unmodelled)"
| "spread v = Inr []"

text \<open>\<^verbatim>\<open>updateThresholds(newThresholds)\<close>\<close>

definition updateThresholds :: "jsval \<Rightarrow> scoring_service \<Rightarrow> js_error + scoring_service" where
  "updateThresholds newThresholds svc =
     (case spread newThresholds of
        Inl e \<Rightarrow> Inl e
      | Inr kvs \<Rightarrow>
          Inr (svc\<lparr>thresholds := foldl (\<lambda>obj (k, v). set_prop obj k v) (thresholds svc) kvs\<rparr>))"


section \<open>The data models\<close>

text \<open>
  \<^verbatim>\<open>new Rule(data)\<close> copies the fields of \<open>data\<close> and runs \<^verbatim>\<open>validate()\<close>; this is the
  outcome of that validation. The weight is tested on its type only.
\<close>

definition Rule_validate :: "jsval \<Rightarrow> error + unit" where
  "Rule_validate data =
     (if nullish data then Inl (Host TypeError)
      else if \<not> truthy (own_prop data ''id'') then Inl RuleIdRequired
      else if \<not> truthy (own_prop data ''name'') then Inl RuleNameRequired
      else if \<not> truthy (own_prop data ''condition'') then Inl RuleConditionRequired
      else if (case own_prop data ''weight'' of JNum w \<Rightarrow> False | _ \<Rightarrow> True)
        then Inl RuleWeightMustBeNumber
      else if strict_equals (JStr ''allow'') (own_prop data ''action'') then Inr ()
      else if strict_equals (JStr ''review'') (own_prop data ''action'') then Inr ()
      else if strict_equals (JStr ''deny'') (own_prop data ''action'') then Inr ()
      else Inl RuleActionInvalid)"

text \<open>
  \<^verbatim>\<open>SystemConfig.validate()\<close>, on the two fields it reads. \<^verbatim>\<open>||\<close> evaluates its right
  operand only when the left one is false.
\<close>

definition le :: "jsval \<Rightarrow> real \<Rightarrow> js_error + bool" where
  "le v c = relational (\<le>) v (JNum c)"

definition SystemConfig_validate :: "jsval \<Rightarrow> jsval \<Rightarrow> error + unit" where
  "SystemConfig_validate ths rateLimit =
     (if nullish ths then Inl (Host TypeError)
      else
        (case relational (<) (own_prop ths ''allow'') (own_prop ths ''review'') of
           Inl e \<Rightarrow> Inl (Host e)
         | Inr True \<Rightarrow> Inl InvalidThresholdConfiguration
         | Inr False \<Rightarrow>
        (case relational (<) (own_prop ths ''review'') (own_prop ths ''deny'') of
           Inl e \<Rightarrow> Inl (Host e)
         | Inr True \<Rightarrow> Inl InvalidThresholdConfiguration
         | Inr False \<Rightarrow>
        (if nullish rateLimit then Inl (Host TypeError)
         else if \<not> truthy (own_prop rateLimit ''enabled'') then Inr ()
         else
           (case le (own_prop rateLimit ''windowMs'') 0 of
              Inl e \<Rightarrow> Inl (Host e)
            | Inr True \<Rightarrow> Inl InvalidRateLimitConfiguration
            | Inr False \<Rightarrow>
           (case le (own_prop rateLimit ''maxRequests'') 0 of
              Inl e \<Rightarrow> Inl (Host e)
            | Inr True \<Rightarrow> Inl InvalidRateLimitConfiguration
            | Inr False \<Rightarrow> Inr ()))))))"

text \<open>The rate limit a \<^verbatim>\<open>SystemConfig\<close> has when its argument names none.\<close>

definition default_rateLimit :: jsval where
  "default_rateLimit =
     JObj [(''enabled'', JBool True), (''windowMs'', JNum 900000), (''maxRequests'', JNum 100)]"


section \<open>The verification route\<close>

text \<open>
  The three calls of the \<^verbatim>\<open>/verify\<close> handler on the verification data: the rule
  evaluation pass, the score calculation on its results, the decision on the score. The
  run depends on the host in two places: on its states \<open>host\<close> during the rule evaluation
  pass, and on the clock reading \<open>now\<close> of \<^verbatim>\<open>_calculateDataQualityScore\<close>.
\<close>

definition verify ::
  "'h function_ctor \<Rightarrow> (nat \<Rightarrow> 'h) \<Rightarrow> real \<Rightarrow> rule_engine \<Rightarrow> scoring_service \<Rightarrow> jsval
     \<Rightarrow> error + rule_result list \<times> score_result \<times> string" where
  "verify new_Function host now engine svc verificationData =
     (case evaluateRules new_Function host (rules engine) verificationData of
        Inl e \<Rightarrow> Inl (Host e)
      | Inr ruleResults \<Rightarrow>
          (case calculateScore now verificationData ruleResults of
             Inl e \<Rightarrow> Inl e
           | Inr scoreResult \<Rightarrow>
               (case getDecision svc (final_score scoreResult) of
                  Inl e \<Rightarrow> Inl (Host e)
                | Inr decision \<Rightarrow> Inr (ruleResults, scoreResult, decision))))"


section \<open>Values and notions used in the properties\<close>

text \<open>A rule set of one valid rule, as in the test of \<^verbatim>\<open>loadRules\<close>.\<close>

definition test_rule :: jsval where
  "test_rule = mk_rule ''test_rule'' ''Test Rule'' ''true'' 10 ''allow'' ''A rule that holds''"

text \<open>A rule that lacks \<^verbatim>\<open>name\<close>, \<^verbatim>\<open>condition\<close> and \<^verbatim>\<open>action\<close>, as in the same test.\<close>

definition nameless_rule :: jsval where
  "nameless_rule = JObj [(''id'', JStr ''invalid_rule''), (''weight'', JNum 10)]"

text \<open>A rule that is complete and has the weight \<open>0\<close>.\<close>

definition zero_weight_rule :: jsval where
  "zero_weight_rule =
     JObj [(''id'', JStr ''neutral_rule''), (''name'', JStr ''Neutral Rule''),
           (''condition'', JStr ''true''), (''weight'', JNum 0), (''action'', JStr ''allow''),
           (''enabled'', JBool True)]"

definition custom_thresholds :: jsval where
  "custom_thresholds = JObj [(''allow'', JNum 90), (''review'', JNum 60), (''deny'', JNum 10)]"

definition unordered_thresholds :: jsval where
  "unordered_thresholds = JObj [(''allow'', JNum 10), (''review'', JNum 50), (''deny'', JNum 90)]"

text \<open>The parsed content of a rules file.\<close>

definition config_of :: "jsval list \<Rightarrow> jsval \<Rightarrow> jsval" where
  "config_of rs t = JObj [(''rules'', JArr rs), (''thresholds'', t)]"

text \<open>The engine after a first, successful load.\<close>

definition loaded_engine :: rule_engine where
  "loaded_engine =
     loadRules ''2024-12-20T00:00:00.000Z'' (Some (config_of [test_rule] custom_thresholds))
       (new_RuleEngine ''rules.json'')"

definition lowercase_thresholds :: jsval where
  "lowercase_thresholds = JObj [(''allow'', JNum 80), (''review'', JNum 50), (''deny'', JNum 0)]"

text \<open>
  The service after \<^verbatim>\<open>updateThresholds({allow: 80, review: 50, deny: 0})\<close>: the upper-case
  keys of the default object stay.
\<close>

definition configured_service :: scoring_service where
  "configured_service =
     \<lparr>ruleEngine = new_RuleEngine ''rules.json'',
      thresholds = [(''ALLOW'', JNum 80), (''REVIEW'', JNum 50), (''DENY'', JNum 0),
                    (''allow'', JNum 80), (''review'', JNum 50), (''deny'', JNum 0)]\<rparr>"

definition uppercase_update :: jsval where
  "uppercase_update = JObj [(''ALLOW'', JNum 90), (''REVIEW'', JNum 60)]"

text \<open>\<^verbatim>\<open>Object.keys\<close> of a value that \<open>spread\<close> models.\<close>

fun own_keys :: "jsval \<Rightarrow> string list" where
  "own_keys (JObj kvs) = map fst kvs"
| "own_keys v = []"

text \<open>A sequence of calls of \<^verbatim>\<open>updateThresholds\<close>.\<close>

fun updateAll :: "jsval list \<Rightarrow> scoring_service \<Rightarrow> js_error + scoring_service" where
  "updateAll [] svc = Inr svc"
| "updateAll (u # us) svc =
     (case updateThresholds u svc of Inl e \<Rightarrow> Inl e | Inr svc' \<Rightarrow> updateAll us svc')"

text \<open>The number a numeric value holds.\<close>

definition num :: "jsval \<Rightarrow> real" where
  "num v = (case v of JNum x \<Rightarrow> x | _ \<Rightarrow> 0)"

text \<open>Results as \<^verbatim>\<open>_evaluateRule\<close> and the \<^verbatim>\<open>catch\<close> of \<^verbatim>\<open>evaluateRules\<close> build them.\<close>

definition result_of :: "string \<Rightarrow> bool \<Rightarrow> real \<Rightarrow> rule_result" where
  "result_of i p w =
     \<lparr>r_id = JStr i, r_name = JStr i, passed = p, weight = JNum w,
      score = JNum (if p then w else 0), action = JStr ''allow'', condition = JStr ''true'',
      description = JUndefined, error = None\<rparr>"

definition failed_result :: "string \<Rightarrow> rule_result" where
  "failed_result i =
     \<lparr>r_id = JStr i, r_name = JStr i, passed = False, weight = JNum 0, score = JNum 0,
      action = JUndefined, condition = JUndefined, description = JUndefined,
      error = Some (FailedToEvaluate (JStr i) (Host TypeError))\<rparr>"

text \<open>
  The scores and the absolute weights that \<^verbatim>\<open>_calculateRuleScore\<close> adds: those of the
  results without error, in the order of the list.
\<close>

definition scores_of :: "rule_result list \<Rightarrow> real list" where
  "scores_of rs = map (\<lambda>r. num (score r)) (filter (\<lambda>r. error r = None) rs)"

definition weights_of :: "rule_result list \<Rightarrow> real list" where
  "weights_of rs = map (\<lambda>r. \<bar>num (weight r)\<bar>) (filter (\<lambda>r. error r = None) rs)"

text \<open>The running binary64 sum of a list of numbers, from the left, starting at zero.\<close>

definition total64 :: "real list \<Rightarrow> double" where
  "total64 xs = foldl add64 (Finite 0) (map Finite xs)"

text \<open>
  Two passed rules whose weight is \<open>2 ^ 1023\<close>, the binary64 value that a rules file
  writes as \<^verbatim>\<open>8.98846567431158e307\<close>.
\<close>

definition heavy_results :: "rule_result list" where
  "heavy_results = [result_of ''rule1'' True (2 ^ 1023), result_of ''rule2'' True (2 ^ 1023)]"

text \<open>A passed rule of weight 20, a failed evaluation and a rule of weight 10 that did not pass.\<close>

definition mixed_results :: "rule_result list" where
  "mixed_results =
     [result_of ''rule1'' True 20, failed_result ''rule2'', result_of ''rule3'' False 10]"

text \<open>A passed rule of weight 10, a failed evaluation and a rule of weight 30 that did not pass.\<close>

definition exact_results :: "rule_result list" where
  "exact_results =
     [result_of ''rule1'' True 10, failed_result ''rule2'', result_of ''rule3'' False 30]"

text \<open>A host that has nothing to read: every state is the same.\<close>

definition quiet_host :: "nat \<Rightarrow> unit" where
  "quiet_host i = ()"

text \<open>Verification data with no section at all.\<close>

definition bare_data :: jsval where
  "bare_data =
     JObj [(''sessionId'', JStr ''test_session''), (''timestamp'', JNum 1700000000000)]"

text \<open>Verification data with a fingerprint section only.\<close>

definition sample_data :: jsval where
  "sample_data =
     JObj [(''fingerprint'', JObj [(''userAgent'', JStr ''Mozilla/5.0 (Test Browser)'')]),
           (''sessionId'', JStr ''test_session''), (''timestamp'', JNum 1700000000000)]"

text \<open>Its context: \<^verbatim>\<open>_createSafeContext\<close> adds the two empty sections.\<close>

definition sample_context :: jsval where
  "sample_context =
     JObj [(''fingerprint'', JObj [(''userAgent'', JStr ''Mozilla/5.0 (Test Browser)'')]),
           (''behavioral'', JObj []), (''facial'', JObj []),
           (''sessionId'', JStr ''test_session''), (''timestamp'', JNum 1700000000000)]"

text \<open>A rule whose condition ends in an operator: a SyntaxError of JavaScript.\<close>

definition broken_rule :: jsval where
  "broken_rule =
     mk_rule ''broken_rule'' ''Broken Rule'' ''fingerprint.userAgent &&'' 10 ''allow''
       ''A condition that ends in an operator''"

text \<open>Rules that refer to the behavioral section, which \<open>sample_data\<close> does not have.\<close>

definition bare_section_rule :: jsval where
  "bare_section_rule =
     mk_rule ''has_behavioral'' ''Has Behavioral'' ''behavioral'' 15 ''allow''
       ''Behavioral data was supplied''"

definition few_events_rule :: jsval where
  "few_events_rule =
     mk_rule ''few_events'' ''Few Events'' ''behavioral.totalEvents < 5'' (- 10) ''review''
       ''Fewer than five events''"

definition click_or_true_rule :: jsval where
  "click_or_true_rule =
     mk_rule ''click_or_true'' ''Click Or True''
       ''behavioral.metrics.clickFrequency > 0.5 || true'' 5 ''allow''
       ''A disjunction with a constant''"

definition total_events_rule :: jsval where
  "total_events_rule =
     mk_rule ''total_events'' ''Total Events'' ''behavioral.totalEvents'' 15 ''allow''
       ''Events were counted''"

text \<open>The result of \<open>test_rule\<close>, whose condition is \<^verbatim>\<open>true\<close>.\<close>

definition test_rule_result :: rule_result where
  "test_rule_result =
     \<lparr>r_id = JStr ''test_rule'', r_name = JStr ''Test Rule'', passed = True,
      weight = JNum 10, score = JNum 10, action = JStr ''allow'', condition = JStr ''true'',
      description = JStr ''A rule that holds'', error = None\<rparr>"

text \<open>
  A name of the fragment: a word that does not start with a digit and is not reserved.
\<close>

definition is_identifier :: "string \<Rightarrow> bool" where
  "is_identifier w \<longleftrightarrow>
     w \<noteq> [] \<and> list_all word_char w \<and> \<not> digit_char (hd w) \<and> w \<notin> set reserved_words"

text \<open>
  The guard \<^verbatim>\<open>(a && a.b ? a.b : null)\<close> that the rewriting puts in the place of
  \<^verbatim>\<open>a.b\<close>: its tokens and its expression.
\<close>

definition guard_tokens :: "string \<Rightarrow> string \<Rightarrow> token list" where
  "guard_tokens a b =
     [TPunct LParen, TWord a, TPunct AndAnd, TWord a, TPunct Dot, TWord b, TPunct Question,
      TWord a, TPunct Dot, TWord b, TPunct Colon, TWord ''null'', TPunct RParen]"

definition guard_expr :: "string \<Rightarrow> string \<Rightarrow> expr" where
  "guard_expr a b = Cond (And (Var a) (Member (Var a) b)) (Member (Var a) b) (Lit JNull)"

text \<open>The path of a guard, when the expression is one.\<close>

definition guard_of :: "expr \<Rightarrow> (string \<times> string) option" where
  "guard_of e =
     (case e of
        Cond c a b \<Rightarrow>
          (case a of
             Member (Var s) f \<Rightarrow> if e = guard_expr s f then Some (s, f) else None
           | _ \<Rightarrow> None)
      | _ \<Rightarrow> None)"

text \<open>The three sections of the verification data that a condition can name.\<close>

definition sections :: "string list" where
  "sections = [''fingerprint'', ''behavioral'', ''facial'']"

text \<open>
  Each section of the data is absent or an object (what a client sends; a section that is
  a string, an array or a number is outside the statements on paths).
\<close>

definition sections_well_formed :: "jsval \<Rightarrow> bool" where
  "sections_well_formed data =
     list_all (\<lambda>s. case own_prop data s of
                      JUndefined \<Rightarrow> True | JNull \<Rightarrow> True | JObj kvs \<Rightarrow> True | _ \<Rightarrow> False)
       sections"

text \<open>
  The truthiness test of the two-segment path \<^verbatim>\<open>section.field\<close> when an absent path
  counts as false: the section is there, the field is there, and its value is truthy.
\<close>

definition path_holds :: "jsval \<Rightarrow> string \<Rightarrow> string \<Rightarrow> bool" where
  "path_holds data s f =
     (case own_prop data s of JObj kvs \<Rightarrow> truthy (own_prop (JObj kvs) f) | _ \<Rightarrow> False)"

text \<open>
  The truth value of a combination of truthiness tests, computed with \<open>false\<close> for every
  absent path: the combination is built by \<^verbatim>\<open>!\<close>, \<^verbatim>\<open>&&\<close> and \<^verbatim>\<open>||\<close> from guarded
  two-segment paths, bare section names (always there in the context, so true) and
  literals. \<open>None\<close> for every other expression: a comparison, a call, a property read
  below a guard.
\<close>

fun truth_value :: "jsval \<Rightarrow> expr \<Rightarrow> bool option" where
  "truth_value data (Lit v) = (if is_object v then None else Some (truthy v))"
| "truth_value data (Var x) = (if x \<in> set sections then Some True else None)"
| "truth_value data (Not e) = map_option (\<lambda>x. \<not> x) (truth_value data e)"
| "truth_value data (And a b) =
     (case (truth_value data a, truth_value data b) of
        (Some x, Some y) \<Rightarrow> Some (x \<and> y)
      | _ \<Rightarrow> None)"
| "truth_value data (Or a b) =
     (case (truth_value data a, truth_value data b) of
        (Some x, Some y) \<Rightarrow> Some (x \<or> y)
      | _ \<Rightarrow> None)"
| "truth_value data (Cond c a b) =
     (case guard_of (Cond c a b) of
        Some (s, f) \<Rightarrow>
          if s \<in> set sections \<and> f \<notin> set object_prototype_names
          then Some (path_holds data s f) else None
      | None \<Rightarrow> None)"
| "truth_value data e = None"

text \<open>The first of the built-in rules.\<close>

definition fingerprint_completeness_rule :: jsval where
  "fingerprint_completeness_rule =
     mk_rule ''fingerprint_completeness'' ''Fingerprint Completeness''
       ''fingerprint.userAgent && fingerprint.canvasFingerprint && fingerprint.webglFingerprint''
       20 ''allow'' ''Verifica se o fingerprint esta completo''"

text \<open>A rule that negates an absent path.\<close>

definition no_events_rule :: jsval where
  "no_events_rule =
     mk_rule ''no_events'' ''No Events'' ''!behavioral.totalEvents || !fingerprint.userAgent''
       (- 5) ''review'' ''No events were counted''"


section \<open>Properties of the rule store\<close>

lemma validateRule_test_rule: "validateRule test_rule = Inr ()"
  by (simp add: test_rule_def mk_rule_def validateRule_def)

lemma loaded_engine_eq:
  "loaded_engine =
     \<lparr>rulesPath = ''rules.json'', rules = [test_rule], thresholds = custom_thresholds,
      lastLoaded = Some ''2024-12-20T00:00:00.000Z''\<rparr>"
  by (simp add: loaded_engine_def loadRules_def config_of_def js_or_def custom_thresholds_def
        new_RuleEngine_def validateRule_test_rule)

text \<open>
  Claim C1 at its failing input: the store holds the rule and the thresholds 90/60/10 of
  a successful load, and the next rules file holds that rule and the rule
  \<^verbatim>\<open>{id: 'invalid_rule', weight: 10}\<close> of the test of \<^verbatim>\<open>loadRules\<close>. The validation
  throws \<^verbatim>\<open>Invalid rule\<close> for the second rule. \<^verbatim>\<open>loadRules\<close> has no exceptional
  outcome: its \<^verbatim>\<open>catch\<close> block takes the exception and installs the built-in rules and
  thresholds, so that neither the rules nor the thresholds of before the load are kept.
  The same happens when a new engine loads the file of the test, which expects the load
  to be rejected with \<^verbatim>\<open>Invalid rule\<close>.
\<close>

theorem loadRules_previous_state_not_retained:
  "rules loaded_engine = [test_rule]
   \<and> rule_engine.thresholds loaded_engine = custom_thresholds
   \<and> validateRules [test_rule, nameless_rule] = Inl (InvalidRule nameless_rule)
   \<and> loadRules ''2024-12-21T00:00:00.000Z''
         (Some (config_of [test_rule, nameless_rule] custom_thresholds)) loaded_engine
       = \<lparr>rulesPath = ''rules.json'', rules = default_rules, thresholds = default_thresholds,
          lastLoaded = Some ''2024-12-21T00:00:00.000Z''\<rparr>
   \<and> rules (loadRules ''2024-12-21T00:00:00.000Z''
              (Some (config_of [test_rule, nameless_rule] custom_thresholds)) loaded_engine)
       \<noteq> rules loaded_engine
   \<and> rule_engine.thresholds
         (loadRules ''2024-12-21T00:00:00.000Z''
            (Some (config_of [test_rule, nameless_rule] custom_thresholds)) loaded_engine)
       \<noteq> rule_engine.thresholds loaded_engine
   \<and> validateRules [nameless_rule] = Inl (InvalidRule nameless_rule)
   \<and> loadRules ''2024-12-21T00:00:00.000Z''
         (Some (JObj [(''rules'', JArr [nameless_rule])])) (new_RuleEngine ''rules.json'')
       = \<lparr>rulesPath = ''rules.json'', rules = default_rules, thresholds = default_thresholds,
          lastLoaded = Some ''2024-12-21T00:00:00.000Z''\<rparr>"
  by (simp add: loaded_engine_eq loadRules_def config_of_def js_or_def custom_thresholds_def
        validateRule_test_rule validateRule_def nameless_rule_def loadDefaultRules_def
        default_rules_def default_thresholds_def test_rule_def mk_rule_def new_RuleEngine_def)

text \<open>
  Claim C3 at its failing input: a configuration of one valid rule and the thresholds
  allow 10, review 50, deny 90. The load keeps the rule and installs the thresholds, which
  \<^verbatim>\<open>SystemConfig.validate()\<close> refuses as an invalid threshold configuration.
\<close>

theorem loadRules_installs_unordered_thresholds:
  "loadRules ''2024-12-20T00:00:00.000Z'' (Some (config_of [test_rule] unordered_thresholds))
     (new_RuleEngine ''rules.json'')
   = \<lparr>rulesPath = ''rules.json'', rules = [test_rule], thresholds = unordered_thresholds,
      lastLoaded = Some ''2024-12-20T00:00:00.000Z''\<rparr>
   \<and> SystemConfig_validate unordered_thresholds default_rateLimit
       = Inl InvalidThresholdConfiguration"
  by (simp add: loadRules_def config_of_def js_or_def unordered_thresholds_def new_RuleEngine_def
        validateRule_test_rule SystemConfig_validate_def relational_def)

text \<open>
  Claim C10 at its failing input: a rule with id, name, condition and action and the
  weight \<open>0\<close>. The validation of a load throws \<^verbatim>\<open>Invalid rule\<close> (and the load installs the
  defaults); \<^verbatim>\<open>addTemporaryRule\<close> throws \<^verbatim>\<open>Invalid rule structure\<close> on an empty store,
  where no id exists. \<^verbatim>\<open>Rule.validate()\<close> accepts the same rule.
\<close>

theorem zero_weight_rule_rejected:
  "validateRules [zero_weight_rule] = Inl (InvalidRule zero_weight_rule)
   \<and> rules (loadRules ''2024-12-20T00:00:00.000Z''
              (Some (config_of [zero_weight_rule] custom_thresholds))
              (new_RuleEngine ''rules.json''))
       = default_rules
   \<and> find_by_id (rules (new_RuleEngine ''rules.json'')) (own_prop zero_weight_rule ''id'')
       = Inr JUndefined
   \<and> addTemporaryRule zero_weight_rule (new_RuleEngine ''rules.json'')
       = Inl InvalidRuleStructure
   \<and> Rule_validate zero_weight_rule = Inr ()"
  by (simp add: zero_weight_rule_def validateRule_def addTemporaryRule_def new_RuleEngine_def
        loadRules_def config_of_def js_or_def custom_thresholds_def loadDefaultRules_def
        Rule_validate_def)

text \<open>Both validations end in an exception at this rule.\<close>

theorem zero_weight_rule_rejected_witness:
  "isl (validateRules [zero_weight_rule])
   \<and> isl (addTemporaryRule zero_weight_rule (new_RuleEngine ''rules.json''))"
  using zero_weight_rule_rejected by simp


section \<open>Properties of the decision\<close>

lemma relational_numbers: "relational r (JNum x) (JNum y) = Inr (r x y)"
  by (simp add: relational_def)

lemma relational_undefined: "relational r (JNum x) JUndefined = Inr False"
  by (simp add: relational_def)

lemma configured_service_eq:
  "updateThresholds lowercase_thresholds (new_ScoringService (new_RuleEngine ''rules.json''))
     = Inr configured_service"
  by (simp add: updateThresholds_def lowercase_thresholds_def new_ScoringService_def
        DEFAULT_THRESHOLDS_def configured_service_def)

text \<open>
  Claim C4. With numbers under the keys \<^verbatim>\<open>allow\<close> and \<^verbatim>\<open>review\<close> of the thresholds, the
  decision for a score \<open>s\<close> is allow exactly when \<open>s \<ge> allow\<close>, review exactly when
  \<open>review \<le> s < allow\<close>, and deny exactly in the remaining case. With the thresholds 80, 50
  and 0 the score 80 is allowed and 79.999 is reviewed.
\<close>

theorem getDecision_by_thresholds:
  assumes "own_prop (JObj (thresholds svc)) ''allow'' = JNum a"
    and "own_prop (JObj (thresholds svc)) ''review'' = JNum r"
  shows "(getDecision svc s = Inr ''allow'' \<longleftrightarrow> s \<ge> a)
       \<and> (getDecision svc s = Inr ''review'' \<longleftrightarrow> r \<le> s \<and> s < a)
       \<and> (getDecision svc s = Inr ''deny'' \<longleftrightarrow> \<not> s \<ge> a \<and> \<not> (r \<le> s \<and> s < a))
       \<and> getDecision configured_service 80 = Inr ''allow''
       \<and> getDecision configured_service 79.999 = Inr ''review''"
proof -
  have general:
    "getDecision svc s =
       (if s \<ge> a then Inr ''allow'' else if s \<ge> r then Inr ''review'' else Inr ''deny'')"
    using assms by (simp add: getDecision_def relational_numbers)
  have "getDecision configured_service 80 = Inr ''allow''"
    by (simp add: getDecision_def configured_service_def relational_numbers)
  moreover have "getDecision configured_service 79.999 = Inr ''review''"
    by (simp add: getDecision_def configured_service_def relational_numbers)
  ultimately show ?thesis
    using general by auto
qed

text \<open>The theorem at the thresholds 80 and 50 and the score 79.999.\<close>

theorem getDecision_by_thresholds_witness:
  "(getDecision configured_service 79.999 = Inr ''allow'' \<longleftrightarrow> (79.999::real) \<ge> 80)
   \<and> (getDecision configured_service 79.999 = Inr ''review''
        \<longleftrightarrow> (50::real) \<le> 79.999 \<and> (79.999::real) < 80)
   \<and> getDecision configured_service 79.999 = Inr ''review''"
  using getDecision_by_thresholds [of configured_service 80 50 "79.999"]
  by (simp add: configured_service_def)

lemma map_of_set_prop:
  "map_of (set_prop kvs k v) k' = (if k' = k then Some v else map_of kvs k')"
  by (induction kvs) auto

lemma foldl_set_prop_absent:
  "map_of kvs k = None \<Longrightarrow> k \<notin> fst ` set new \<Longrightarrow>
   map_of (foldl (\<lambda>obj (k, v). set_prop obj k v) kvs new) k = None"
proof (induction new arbitrary: kvs)
  case Nil
  then show ?case by simp
next
  case (Cons p new)
  obtain k' v' where p: "p = (k', v')" by (cases p)
  from Cons.prems have "k' \<noteq> k" and rest: "k \<notin> fst ` set new"
    by (auto simp: p)
  then have "map_of (set_prop kvs k' v') k = None"
    using Cons.prems(1) by (simp add: map_of_set_prop)
  from Cons.IH [OF this rest] show ?case
    by (simp add: p)
qed

lemma spread_keys: "spread u = Inr kvs \<Longrightarrow> fst ` set kvs = set (own_keys u)"
  by (cases u) (auto split: if_splits)

lemma updateThresholds_absent:
  assumes "updateThresholds u svc = Inr svc'" and "map_of (thresholds svc) k = None"
    and "k \<notin> set (own_keys u)"
  shows "map_of (thresholds svc') k = None"
proof -
  from assms(1) obtain kvs where kvs: "spread u = Inr kvs"
    and svc': "svc' = svc\<lparr>thresholds :=
                 foldl (\<lambda>obj (k, v). set_prop obj k v) (thresholds svc) kvs\<rparr>"
    by (auto simp: updateThresholds_def split: sum.splits)
  from kvs assms(3) have "k \<notin> fst ` set kvs"
    by (simp add: spread_keys)
  with assms(2) show ?thesis
    by (simp add: svc' foldl_set_prop_absent)
qed

lemma updateAll_absent:
  assumes "updateAll us svc = Inr svc'" and "map_of (thresholds svc) k = None"
    and "\<forall>u \<in> set us. k \<notin> set (own_keys u)"
  shows "map_of (thresholds svc') k = None"
  using assms
proof (induction us arbitrary: svc)
  case Nil
  then show ?case by simp
next
  case (Cons u us)
  from Cons.prems(1) obtain svc1 where u: "updateThresholds u svc = Inr svc1"
    and us: "updateAll us svc1 = Inr svc'"
    by (auto split: sum.splits)
  from u Cons.prems have "map_of (thresholds svc1) k = None"
    by (auto intro: updateThresholds_absent)
  with us Cons.prems(3) show ?case
    by (auto intro: Cons.IH)
qed

lemma getDecision_no_lowercase:
  assumes "map_of (thresholds svc) ''allow'' = None"
    and "map_of (thresholds svc) ''review'' = None"
  shows "getDecision svc s = Inr ''deny''"
  using assms by (simp add: getDecision_def relational_undefined)

text \<open>
  Claim C5. A new service holds \<^verbatim>\<open>DEFAULT_THRESHOLDS\<close>, whose keys are \<^verbatim>\<open>ALLOW\<close>,
  \<^verbatim>\<open>REVIEW\<close> and \<^verbatim>\<open>DENY\<close>; \<^verbatim>\<open>getDecision\<close> reads \<^verbatim>\<open>allow\<close> and \<^verbatim>\<open>review\<close>, so it
  answers deny for every score. That stays so after any sequence of
  \<^verbatim>\<open>updateThresholds\<close> calls none of which has the key \<^verbatim>\<open>allow\<close> or \<^verbatim>\<open>review\<close>; after an
  update with the lower-case keys 80, 50 and 0 the score 100 is allowed.
\<close>

theorem getDecision_default_thresholds_deny:
  "getDecision (new_ScoringService engine) s = Inr ''deny''
   \<and> map fst (thresholds (new_ScoringService engine)) = [''ALLOW'', ''REVIEW'', ''DENY'']
   \<and> ((\<forall>u \<in> set us. ''allow'' \<notin> set (own_keys u) \<and> ''review'' \<notin> set (own_keys u))
        \<longrightarrow> updateAll us (new_ScoringService engine) = Inr svc
        \<longrightarrow> getDecision svc s = Inr ''deny'')
   \<and> (updateThresholds lowercase_thresholds (new_ScoringService engine) = Inr svc'
        \<longrightarrow> getDecision svc' 100 = Inr ''allow'')"
proof -
  have init: "map_of (thresholds (new_ScoringService engine)) ''allow'' = None"
             "map_of (thresholds (new_ScoringService engine)) ''review'' = None"
    by (simp_all add: new_ScoringService_def DEFAULT_THRESHOLDS_def)
  then have 1: "getDecision (new_ScoringService engine) s = Inr ''deny''"
    by (rule getDecision_no_lowercase)
  have 2: "map fst (thresholds (new_ScoringService engine)) = [''ALLOW'', ''REVIEW'', ''DENY'']"
    by (simp add: new_ScoringService_def DEFAULT_THRESHOLDS_def)
  have 3: "getDecision svc s = Inr ''deny''"
    if "\<forall>u \<in> set us. ''allow'' \<notin> set (own_keys u) \<and> ''review'' \<notin> set (own_keys u)"
      and "updateAll us (new_ScoringService engine) = Inr svc"
  proof (rule getDecision_no_lowercase)
    show "map_of (thresholds svc) ''allow'' = None"
      using that init(1) by (auto intro: updateAll_absent)
    show "map_of (thresholds svc) ''review'' = None"
      using that init(2) by (auto intro: updateAll_absent)
  qed
  have 4: "getDecision svc' 100 = Inr ''allow''"
    if "updateThresholds lowercase_thresholds (new_ScoringService engine) = Inr svc'"
    using that
    by (auto simp: updateThresholds_def lowercase_thresholds_def new_ScoringService_def
          DEFAULT_THRESHOLDS_def getDecision_def relational_numbers)
  from 1 2 3 4 show ?thesis by blast
qed

text \<open>
  The theorem at the score 100, at the two updates \<^verbatim>\<open>{ALLOW: 90, REVIEW: 60}\<close> and
  \<^verbatim>\<open>null\<close>, and at the update with lower-case keys.
\<close>

theorem getDecision_default_thresholds_deny_witness:
  "getDecision (new_ScoringService (new_RuleEngine ''rules.json'')) 100 = Inr ''deny''
   \<and> updateAll [uppercase_update, JNull] (new_ScoringService (new_RuleEngine ''rules.json''))
       = Inr \<lparr>ruleEngine = new_RuleEngine ''rules.json'',
              thresholds = [(''ALLOW'', JNum 90), (''REVIEW'', JNum 60), (''DENY'', JNum 0)]\<rparr>
   \<and> getDecision
         \<lparr>ruleEngine = new_RuleEngine ''rules.json'',
          thresholds = [(''ALLOW'', JNum 90), (''REVIEW'', JNum 60), (''DENY'', JNum 0)]\<rparr> 100
       = Inr ''deny''
   \<and> getDecision configured_service 100 = Inr ''allow''"
proof -
  let ?svc = "\<lparr>ruleEngine = new_RuleEngine ''rules.json'',
               thresholds = [(''ALLOW'', JNum 90), (''REVIEW'', JNum 60), (''DENY'', JNum 0)]\<rparr>"
  have upd: "updateAll [uppercase_update, JNull]
               (new_ScoringService (new_RuleEngine ''rules.json'')) = Inr ?svc"
    by (simp add: uppercase_update_def updateThresholds_def new_ScoringService_def
          DEFAULT_THRESHOLDS_def)
  have keys: "\<forall>u \<in> set [uppercase_update, JNull].
                ''allow'' \<notin> set (own_keys u) \<and> ''review'' \<notin> set (own_keys u)"
    by (simp add: uppercase_update_def)
  from getDecision_default_thresholds_deny
         [of "new_RuleEngine ''rules.json''" 100 "[uppercase_update, JNull]" ?svc
             configured_service]
       upd keys configured_service_eq
  show ?thesis by simp
qed


section \<open>Properties of the sub-scores\<close>

lemmas halvings_numeral = halvings.simps(2) [of "pred_numeral k" for k, folded numeral_eq_Suc]
lemmas doublings_numeral = doublings.simps(2) [of "pred_numeral k" for k, folded numeral_eq_Suc]
lemmas round64_eval = round64_def spacing_def binade_def halvings_numeral doublings_numeral
  round_half_even_def Let_def

lemma accumulate_sums:
  assumes "\<forall>r \<in> set rs. error r = None \<longrightarrow> (\<exists>s w. score r = JNum s \<and> weight r = JNum w)"
  shows "accumulate rs ts tw =
           Inr (foldl add64 ts (map Finite (scores_of rs)),
                foldl add64 tw (map Finite (weights_of rs)))"
  using assms
proof (induction rs arbitrary: ts tw)
  case Nil
  then show ?case by (simp add: scores_of_def weights_of_def)
next
  case (Cons r rs)
  show ?case
  proof (cases "error r = None")
    case True
    with Cons.prems obtain s w where "score r = JNum s" "weight r = JNum w"
      by auto
    with True Cons show ?thesis
      by (simp add: num_def scores_of_def weights_of_def)
  next
    case False
    with Cons show ?thesis by (auto simp: scores_of_def weights_of_def)
  qed
qed

lemma round64_zero: "round64 0 = Finite 0"
  by (simp add: round64_def)

lemma total64_zeros: "\<forall>x \<in> set xs. x = 0 \<Longrightarrow> total64 xs = Finite 0"
  unfolding total64_def by (induction xs) (simp_all add: round64_zero)

lemma round64_not_NaN: "round64 x \<noteq> NaN"
  by (simp add: round64_def)

lemma add64_one: "d \<noteq> NaN \<Longrightarrow> add64 d (Finite 1) \<noteq> NaN"
  by (cases d) (simp_all add: round64_not_NaN)

lemma mul64_fifty: "d \<noteq> NaN \<Longrightarrow> mul64 d (Finite 50) \<noteq> NaN"
  by (cases d) (simp_all add: round64_not_NaN)

lemma div64_finite: "b \<noteq> 0 \<Longrightarrow> div64 (Finite a) (Finite b) \<noteq> NaN"
  by (simp add: round64_not_NaN)

lemma clamp64_range:
  "d \<noteq> NaN \<Longrightarrow>
   \<exists>x. Math_max (Finite 0) (Math_min (Finite 100) d) = Finite x \<and> 0 \<le> x \<and> x \<le> 100"
  by (cases d) auto

lemma rule_score_range:
  assumes "b \<noteq> 0"
  shows "\<exists>x. Math_max (Finite 0) (Math_min (Finite 100)
               (mul64 (add64 (div64 (Finite a) (Finite b)) (Finite 1)) (Finite 50))) = Finite x
             \<and> 0 \<le> x \<and> x \<le> 100"
  by (intro clamp64_range mul64_fifty add64_one div64_finite assms)

text \<open>
  Claim C6, as the code has it. For a list of results whose scores and weights are numbers
  where there is no error, the rule score is the formula of the claim computed in binary64
  arithmetic: 50 when the list is empty or the running sum of the absolute weights of the
  results without error is zero, and otherwise the running sum of their scores divided by
  that sum, plus one, times 50, each operation rounded, between \<^verbatim>\<open>Math.max(0, ...)\<close> and
  \<^verbatim>\<open>Math.min(100, ...)\<close>. When both running sums are finite, the score is a number
  from 0 to 100. It is 50 when the absolute weights of the results without error sum to
  zero. Where no operation rounds, it is the exact value of the formula, clamped to the
  interval from 0 to 100.
\<close>

theorem calculateRuleScore_binary64:
  assumes "\<forall>r \<in> set rs. error r = None \<longrightarrow> (\<exists>s w. score r = JNum s \<and> weight r = JNum w)"
  shows "calculateRuleScore rs
         = Inr (if rs = [] \<or> total64 (weights_of rs) = Finite 0 then Finite 50
                else Math_max (Finite 0) (Math_min (Finite 100)
                       (mul64 (add64 (div64 (total64 (scores_of rs)) (total64 (weights_of rs)))
                          (Finite 1)) (Finite 50))))
       \<and> (total64 (scores_of rs) = Finite s \<longrightarrow> total64 (weights_of rs) = Finite w
            \<longrightarrow> (\<exists>x. calculateRuleScore rs = Inr (Finite x) \<and> 0 \<le> x \<and> x \<le> 100))
       \<and> (rs = [] \<or> sum_list (weights_of rs) = 0 \<longrightarrow> calculateRuleScore rs = Inr (Finite 50))
       \<and> (rs \<noteq> [] \<longrightarrow> sum_list (weights_of rs) \<noteq> 0
            \<longrightarrow> total64 (scores_of rs) = Finite (sum_list (scores_of rs))
            \<longrightarrow> total64 (weights_of rs) = Finite (sum_list (weights_of rs))
            \<longrightarrow> round64 (sum_list (scores_of rs) / sum_list (weights_of rs))
                  = Finite (sum_list (scores_of rs) / sum_list (weights_of rs))
            \<longrightarrow> round64 (sum_list (scores_of rs) / sum_list (weights_of rs) + 1)
                  = Finite (sum_list (scores_of rs) / sum_list (weights_of rs) + 1)
            \<longrightarrow> round64 ((sum_list (scores_of rs) / sum_list (weights_of rs) + 1) * 50)
                  = Finite ((sum_list (scores_of rs) / sum_list (weights_of rs) + 1) * 50)
            \<longrightarrow> calculateRuleScore rs
                  = Inr (Finite (max 0 (min 100
                      ((sum_list (scores_of rs) / sum_list (weights_of rs) + 1) * 50)))))"
proof -
  have eq: "calculateRuleScore rs
         = Inr (if rs = [] \<or> total64 (weights_of rs) = Finite 0 then Finite 50
                else Math_max (Finite 0) (Math_min (Finite 100)
                       (mul64 (add64 (div64 (total64 (scores_of rs)) (total64 (weights_of rs)))
                          (Finite 1)) (Finite 50))))"
    by (simp add: calculateRuleScore_def accumulate_sums [OF assms] total64_def)
  have range: "\<exists>x. calculateRuleScore rs = Inr (Finite x) \<and> 0 \<le> x \<and> x \<le> 100"
    if "total64 (scores_of rs) = Finite s" "total64 (weights_of rs) = Finite w"
  proof (cases "rs = [] \<or> w = 0")
    case True
    with that show ?thesis
      unfolding eq by auto
  next
    case False
    with that rule_score_range [of w s] show ?thesis
      unfolding eq by simp
  qed
  have "total64 (weights_of rs) = Finite 0" if "sum_list (weights_of rs) = 0"
  proof -
    have "\<forall>x \<in> set (weights_of rs). 0 \<le> x"
      by (simp add: weights_of_def)
    with that have "\<forall>x \<in> set (weights_of rs). x = 0"
      by (simp add: sum_list_nonneg_eq_0_iff)
    then show ?thesis
      by (rule total64_zeros)
  qed
  with eq have neutral: "calculateRuleScore rs = Inr (Finite 50)"
    if "rs = [] \<or> sum_list (weights_of rs) = 0"
    using that by auto
  have exact: "calculateRuleScore rs
                  = Inr (Finite (max 0 (min 100
                      ((sum_list (scores_of rs) / sum_list (weights_of rs) + 1) * 50))))"
    if "rs \<noteq> []" "sum_list (weights_of rs) \<noteq> 0"
      "total64 (scores_of rs) = Finite (sum_list (scores_of rs))"
      "total64 (weights_of rs) = Finite (sum_list (weights_of rs))"
      "round64 (sum_list (scores_of rs) / sum_list (weights_of rs))
                  = Finite (sum_list (scores_of rs) / sum_list (weights_of rs))"
      "round64 (sum_list (scores_of rs) / sum_list (weights_of rs) + 1)
                  = Finite (sum_list (scores_of rs) / sum_list (weights_of rs) + 1)"
      "round64 ((sum_list (scores_of rs) / sum_list (weights_of rs) + 1) * 50)
                  = Finite ((sum_list (scores_of rs) / sum_list (weights_of rs) + 1) * 50)"
    unfolding eq using that by simp
  from eq range neutral exact show ?thesis by blast
qed

lemma exact_lists:
  "scores_of exact_results = [10, 0]" "weights_of exact_results = [10, 30]"
  "exact_results \<noteq> []"
  by (simp_all add: exact_results_def scores_of_def weights_of_def result_of_def
        failed_result_def num_def)

lemma exact_totals:
  "total64 [10, 0] = Finite 10" "total64 [10, 30] = Finite 40"
  by (simp_all add: total64_def round64_eval)

lemma exact_roundings:
  "round64 (1 / 4) = Finite (1 / 4)" "round64 (5 / 4) = Finite (5 / 4)"
  "round64 (125 / 2) = Finite (125 / 2)"
  by (simp_all add: round64_eval)

lemma exact_numeric:
  "\<forall>r \<in> set exact_results. error r = None \<longrightarrow> (\<exists>s w. score r = JNum s \<and> weight r = JNum w)"
  by (simp add: exact_results_def result_of_def failed_result_def)

text \<open>
  The theorem at a passed rule of weight 10, a failed evaluation and a rule of weight 30
  that did not pass: no operation rounds, and the score is \<open>(10 / 40 + 1) * 50\<close>.
\<close>

theorem calculateRuleScore_binary64_witness:
  "calculateRuleScore exact_results = Inr (Finite 62.5)"
  using calculateRuleScore_binary64 [OF exact_numeric]
  by (simp add: exact_lists exact_totals exact_roundings)

lemma heavy_lists:
  "scores_of heavy_results = [2 ^ 1023, 2 ^ 1023]" "weights_of heavy_results = [2 ^ 1023, 2 ^ 1023]"
  "heavy_results \<noteq> []"
  by (simp_all add: heavy_results_def scores_of_def weights_of_def result_of_def num_def)

lemma heavy_numeric:
  "\<forall>r \<in> set heavy_results. error r = None \<longrightarrow> (\<exists>s w. score r = JNum s \<and> weight r = JNum w)"
  by (simp add: heavy_results_def result_of_def)

lemma halvings_power: "halvings n (2 ^ n) = 2 ^ n"
proof (induction n)
  case 0
  show ?case by simp
next
  case (Suc n)
  have "\<not> (2 :: real) ^ Suc n < 2"
    by (simp add: not_less)
  then show ?case using Suc by simp
qed

lemma binade_top: "binade (2 ^ 1023) = 2 ^ 1023"
  using halvings_power [of 1023] by (simp add: binade_def)

lemma round64_top: "round64 (2 ^ 1023) = Finite (2 ^ 1023)"
  using binade_top by (simp add: round64_def spacing_def round_half_even_def Let_def)

lemma round64_overflow: "round64 (2 ^ 1023 + 2 ^ 1023) = PosInf"
  by (simp add: round64_def)

lemma heavy_total: "total64 [2 ^ 1023, 2 ^ 1023] = PosInf"
  using round64_top round64_overflow by (simp add: total64_def)

lemma heavy_score: "calculateRuleScore heavy_results = Inr NaN"
  using heavy_total
  by (simp add: calculateRuleScore_def accumulate_sums [OF heavy_numeric] heavy_lists
        total64_def)

lemma mixed_lists:
  "scores_of mixed_results = [20, 0]" "weights_of mixed_results = [20, 10]"
  "mixed_results \<noteq> []"
  by (simp_all add: mixed_results_def scores_of_def weights_of_def result_of_def
        failed_result_def num_def)

lemma mixed_numeric:
  "\<forall>r \<in> set mixed_results. error r = None \<longrightarrow> (\<exists>s w. score r = JNum s \<and> weight r = JNum w)"
  by (simp add: mixed_results_def result_of_def failed_result_def)

lemma mixed_totals:
  "total64 [20, 0] = Finite 20" "total64 [20, 10] = Finite 30"
  by (simp_all add: total64_def round64_eval)

lemma mixed_roundings:
  "round64 (2 / 3) = Finite (6004799503160661 / 2 ^ 53)"
  "round64 (6004799503160661 / 2 ^ 53 + 1) = Finite (3752999689475413 / 2 ^ 51)"
  "round64 (3752999689475413 / 2 ^ 51 * 50) = Finite (5864062014805333 / 2 ^ 46)"
  by (simp_all add: round64_eval)

lemma mixed_score:
  "calculateRuleScore mixed_results = Inr (Finite (5864062014805333 / 2 ^ 46))"
  using mixed_totals mixed_roundings
  by (simp add: calculateRuleScore_def accumulate_sums [OF mixed_numeric] mixed_lists
        total64_def)

text \<open>
  Claim C6 as stated fails. For a passed rule of weight 20 and a rule of weight 10 that
  did not pass the score is the binary64 value \<open>5864062014805333 / 2 ^ 46\<close>
  (\<^verbatim>\<open>83.33333333333333\<close>), below the \<open>250 / 3\<close> of the formula. For two passed rules of
  weight \<open>2 ^ 1023\<close> both sums are infinite and the score is NaN, where the formula of the
  claim gives 100.
\<close>

theorem calculateRuleScore_not_the_exact_formula:
  "calculateRuleScore mixed_results = Inr (Finite (5864062014805333 / 2 ^ 46))
   \<and> max 0 (min 100 ((sum_list (scores_of mixed_results) / sum_list (weights_of mixed_results)
                        + 1) * 50)) = (250 / 3 :: real)
   \<and> (5864062014805333 / 2 ^ 46 :: real) < 250 / 3
   \<and> calculateRuleScore heavy_results = Inr NaN
   \<and> max 0 (min 100 ((sum_list (scores_of heavy_results) / sum_list (weights_of heavy_results)
                        + 1) * 50)) = (100 :: real)"
  by (simp add: heavy_score mixed_score heavy_lists mixed_lists)

text \<open>
  Claim C8. The behavioral scorer returns 30 for an absent (\<^verbatim>\<open>undefined\<close> or \<^verbatim>\<open>null\<close>)
  behavioral section, the fingerprint scorer 0 for an absent fingerprint section and the
  facial scorer 50 for an absent facial section; these are the sub-scores in the breakdown
  of \<^verbatim>\<open>calculateScore\<close> for data that lacks the section.
\<close>

theorem absent_section_scores:
  "(nullish b \<longrightarrow> calculateBehavioralScore b = Inr 30)
   \<and> (nullish f \<longrightarrow> calculateFingerprintScore f = Inr 0)
   \<and> (nullish x \<longrightarrow> calculateFacialScore x = 50)
   \<and> (calculateScore now data ruleResults = Inr res \<longrightarrow>
         (nullish (own_prop data ''behavioral'') \<longrightarrow> behavioral_score (breakdown res) = 30)
       \<and> (nullish (own_prop data ''fingerprint'') \<longrightarrow> fingerprint_score (breakdown res) = 0)
       \<and> (nullish (own_prop data ''facial'') \<longrightarrow> facial_score (breakdown res) = 50))"
proof -
  have nt: "\<not> truthy v" if "nullish v" for v
    using that by (cases v) auto
  have 1: "calculateBehavioralScore b = Inr 30" if "nullish b" for b
    using nt [OF that] by (simp add: calculateBehavioralScore_def)
  have 2: "calculateFingerprintScore f = Inr 0" if "nullish f" for f
    using nt [OF that] by (simp add: calculateFingerprintScore_def)
  have 3: "calculateFacialScore x = 50" if "nullish x" for x
    using nt [OF that] by (simp add: calculateFacialScore_def)
  have 4: "(nullish (own_prop data ''behavioral'') \<longrightarrow> behavioral_score (breakdown res) = 30)
       \<and> (nullish (own_prop data ''fingerprint'') \<longrightarrow> fingerprint_score (breakdown res) = 0)
       \<and> (nullish (own_prop data ''facial'') \<longrightarrow> facial_score (breakdown res) = 50)"
    if "calculateScore now data ruleResults = Inr res"
    using that 1 2 3
    by (auto simp: calculateScore_def Let_def split: if_splits sum.splits double.splits)
  from 1 2 3 4 show ?thesis by blast
qed

text \<open>
  The theorem at \<^verbatim>\<open>undefined\<close> and \<^verbatim>\<open>null\<close>, and at verification data that has a
  session id and a time stamp only.
\<close>

theorem absent_section_scores_witness:
  "calculateBehavioralScore JUndefined = Inr 30
   \<and> calculateFingerprintScore JNull = Inr 0
   \<and> calculateFacialScore JUndefined = 50
   \<and> map_sum id breakdown (calculateScore 1700000000500 bare_data [])
       = Inr \<lparr>rule_score = 50, behavioral_score = 30, fingerprint_score = 0,
              facial_score = 50, data_quality_score = 60\<rparr>"
proof -
  have res: "calculateScore 1700000000500 bare_data []
       = Inr \<lparr>final_score = 35.5,
              reasons = [''Very low confidence score with significant risk factors'',
                         ''Insufficient or suspicious behavioral data'',
                         ''Incomplete or suspicious device fingerprint''],
              breakdown = \<lparr>rule_score = 50, behavioral_score = 30, fingerprint_score = 0,
                           facial_score = 50, data_quality_score = 60\<rparr>\<rparr>"
    by (simp add: calculateScore_def bare_data_def calculateRuleScore_def
          calculateBehavioralScore_def calculateFingerprintScore_def calculateFacialScore_def
          calculateDataQualityScore_def step_def bonus_def age_test_def consistent_def
          clamped_def clamp_def combineScores_def generateReasons_def Let_def)
  from absent_section_scores [of JUndefined JNull JUndefined 1700000000500 bare_data "[]"] res
  show ?thesis by simp
qed


section \<open>Properties of the rule evaluation pass\<close>

lemma evaluateRule_no_error:
  assumes "\<not> nullish data" and "\<not> nullish rule"
  shows "\<exists>res. evaluateRule new_Function h rule data = Inr res \<and> error res = None
           \<and> r_id res = own_prop rule ''id'' \<and> weight res = own_prop rule ''weight''
           \<and> score res = (if passed res then own_prop rule ''weight'' else JNum 0)"
  using assms by (simp add: evaluateRule_def createSafeContext_def Let_def)

lemma evaluateCondition_syntax_error:
  "new_Function (replace_paths c) = Inl SyntaxError \<Longrightarrow>
   evaluateCondition new_Function h (JStr c) context = False"
  by (simp add: evaluateCondition_def)

lemma evaluateRule_syntax_error:
  assumes "\<not> nullish data" and "\<not> nullish rule" and "own_prop rule ''condition'' = JStr c"
    and "new_Function (replace_paths c) = Inl SyntaxError"
    and "evaluateRule new_Function h rule data = Inr res"
  shows "error res = None \<and> \<not> passed res \<and> score res = JNum 0
           \<and> r_id res = own_prop rule ''id'' \<and> weight res = own_prop rule ''weight''"
  using assms
  by (auto simp: evaluateRule_def createSafeContext_def Let_def evaluateCondition_syntax_error)

lemma evaluateRules_results:
  assumes "\<not> nullish data" and "\<forall>r \<in> set rs. \<not> nullish r"
  shows "\<exists>results. evaluateRules new_Function host rs data = Inr results
           \<and> list_all2 (\<lambda>r res. \<exists>h. evaluateRule new_Function h r data = Inr res)
                (filter (\<lambda>r. truthy (own_prop r ''enabled'')) rs) results"
  using assms(2)
proof (induction rs arbitrary: host)
  case Nil
  then show ?case by simp
next
  case (Cons r rs)
  from Cons.prems have r: "\<not> nullish r" and rs: "\<forall>r \<in> set rs. \<not> nullish r"
    by simp_all
  from Cons.IH [OF rs, of "\<lambda>i. host (Suc i)"]
  obtain results where results: "evaluateRules new_Function (\<lambda>i. host (Suc i)) rs data = Inr results"
      "list_all2 (\<lambda>r res. \<exists>h. evaluateRule new_Function h r data = Inr res)
         (filter (\<lambda>r. truthy (own_prop r ''enabled'')) rs) results"
    by blast
  from evaluateRule_no_error [OF assms(1) r, where new_Function = new_Function and h = "host 0"]
  obtain res where res: "evaluateRule new_Function (host 0) r data = Inr res"
    by blast
  show ?case
  proof (cases "truthy (own_prop r ''enabled'')")
    case True
    with r results res show ?thesis
      by (simp add: Let_def) blast
  next
    case False
    with r results show ?thesis
      by simp
  qed
qed

lemma list_all2_member:
  "list_all2 P xs ys \<Longrightarrow> x \<in> set xs \<Longrightarrow> \<exists>y \<in> set ys. P x y"
  by (induction rule: list_all2_induct) auto


text \<open>
  Claim C2, as the code has it. For data that is an object and a store without \<^verbatim>\<open>null\<close>
  entries, the pass returns one result for every enabled rule, in the order of the store.
  For an enabled rule whose condition fails to parse (the constructor throws a
  SyntaxError), the result has \<^verbatim>\<open>passed\<close> false, the score 0, the weight of the rule and
  no \<^verbatim>\<open>error\<close>: \<^verbatim>\<open>_evaluateCondition\<close> catches the exception and returns \<^verbatim>\<open>false\<close>.
  This holds for every constructor and every sequence of host states.
\<close>

theorem syntax_error_result_without_error:
  assumes "\<not> nullish data" and "\<forall>r \<in> set rs. \<not> nullish r"
    and "rule \<in> set rs" and "truthy (own_prop rule ''enabled'')"
    and "own_prop rule ''condition'' = JStr c"
    and "new_Function (replace_paths c) = Inl SyntaxError"
  shows "\<exists>results.
           evaluateRules new_Function host rs data = Inr results
           \<and> map r_id results
               = map (\<lambda>r. own_prop r ''id'') (filter (\<lambda>r. truthy (own_prop r ''enabled'')) rs)
           \<and> (\<exists>res \<in> set results.
                 r_id res = own_prop rule ''id'' \<and> \<not> passed res \<and> score res = JNum 0
                 \<and> weight res = own_prop rule ''weight'' \<and> error res = None)"
proof -
  let ?enabled = "filter (\<lambda>r. truthy (own_prop r ''enabled'')) rs"
  from evaluateRules_results [OF assms(1,2)]
  obtain results where results: "evaluateRules new_Function host rs data = Inr results"
      "list_all2 (\<lambda>r res. \<exists>h. evaluateRule new_Function h r data = Inr res) ?enabled results"
    by blast
  have nn: "\<forall>r \<in> set ?enabled. \<not> nullish r"
    using assms(2) by simp
  have "list_all2 (\<lambda>r res. r_id res = own_prop r ''id'') ?enabled results"
    using results(2) nn
  proof (induction rule: list_all2_induct)
    case Nil
    then show ?case by simp
  next
    case (Cons r xs res ys)
    from Cons(1) obtain h where "evaluateRule new_Function h r data = Inr res"
      by blast
    moreover from Cons.prems have "\<not> nullish r"
      by simp
    ultimately have "r_id res = own_prop r ''id''"
      using evaluateRule_no_error [OF assms(1), where rule = r and new_Function = new_Function and h = h]
      by auto
    with Cons show ?case by simp
  qed
  then have ids: "map r_id results = map (\<lambda>r. own_prop r ''id'') ?enabled"
    by (induction rule: list_all2_induct) simp_all
  have "rule \<in> set ?enabled"
    using assms(3,4) by simp
  from list_all2_member [OF results(2) this]
  obtain res h where res: "res \<in> set results"
      "evaluateRule new_Function h rule data = Inr res"
    by blast
  have "\<not> nullish rule"
    using assms(2,3) by blast
  from evaluateRule_syntax_error [OF assms(1) this assms(5,6) res(2)]
  have "r_id res = own_prop rule ''id'' \<and> \<not> passed res \<and> score res = JNum 0
          \<and> weight res = own_prop rule ''weight'' \<and> error res = None"
    by simp
  with res(1) results(1) ids show ?thesis
    by blast
qed

lemma broken_parse:
  "parse_condition ''(fingerprint && fingerprint.userAgent ? fingerprint.userAgent : null) &&''
     = Inl SyntaxError"
  by code_simp

lemma broken_rewrite:
  "replace_paths ''fingerprint.userAgent &&''
     = ''(fingerprint && fingerprint.userAgent ? fingerprint.userAgent : null) &&''"
  by code_simp

lemma broken_new_Function:
  "js_fragment (replace_paths ''fingerprint.userAgent &&'') = Inl SyntaxError"
  by (simp add: broken_rewrite js_fragment_def broken_parse)

lemma true_rewrite: "replace_paths ''true'' = ''true''"
  by code_simp

lemma true_parse: "parse_condition ''true'' = Inr (Some (Lit (JBool True)))"
  by code_simp

lemma true_condition:
  "\<not> nullish context \<Longrightarrow> evaluateCondition js_fragment h (JStr ''true'') context"
  by (simp add: evaluateCondition_def true_rewrite js_fragment_def true_parse)

lemma broken_condition:
  "\<not> evaluateCondition js_fragment h (JStr ''fingerprint.userAgent &&'') context"
  by (simp add: evaluateCondition_def broken_new_Function)

lemma broken_results:
  "evaluateRules js_fragment quiet_host [broken_rule, test_rule] sample_data
      = Inr [\<lparr>r_id = JStr ''broken_rule'', r_name = JStr ''Broken Rule'', passed = False,
              weight = JNum 10, score = JNum 0, action = JStr ''allow'',
              condition = JStr ''fingerprint.userAgent &&'',
              description = JStr ''A condition that ends in an operator'', error = None\<rparr>,
             \<lparr>r_id = JStr ''test_rule'', r_name = JStr ''Test Rule'', passed = True,
              weight = JNum 10, score = JNum 10, action = JStr ''allow'',
              condition = JStr ''true'',
              description = JStr ''A rule that holds'', error = None\<rparr>]"
  by (simp add: broken_rule_def test_rule_def mk_rule_def sample_data_def
        evaluateRule_def createSafeContext_def js_or_def Let_def
        true_condition broken_condition)

text \<open>
  The theorem at the store of \<open>broken_rule\<close> and \<open>test_rule\<close>, with the constructor of the
  fragment.
\<close>

theorem syntax_error_result_without_error_witness:
  "\<exists>results.
     evaluateRules js_fragment quiet_host [broken_rule, test_rule] sample_data = Inr results
     \<and> map r_id results = [JStr ''broken_rule'', JStr ''test_rule'']
     \<and> (\<exists>res \<in> set results.
           r_id res = JStr ''broken_rule'' \<and> \<not> passed res \<and> score res = JNum 0
           \<and> weight res = JNum 10 \<and> error res = None)"
proof -
  have h1: "\<not> nullish sample_data"
    by (simp add: sample_data_def)
  have h2: "\<forall>r \<in> set [broken_rule, test_rule]. \<not> nullish r"
    by (simp add: broken_rule_def test_rule_def mk_rule_def)
  have h3: "broken_rule \<in> set [broken_rule, test_rule]"
    by simp
  have h4: "truthy (own_prop broken_rule ''enabled'')"
    by (simp add: broken_rule_def mk_rule_def)
  have h5: "own_prop broken_rule ''condition'' = JStr ''fingerprint.userAgent &&''"
    by (simp add: broken_rule_def mk_rule_def)
  have ids: "map (\<lambda>r. own_prop r ''id'')
               (filter (\<lambda>r. truthy (own_prop r ''enabled'')) [broken_rule, test_rule])
             = [JStr ''broken_rule'', JStr ''test_rule'']"
    by (simp add: broken_rule_def test_rule_def mk_rule_def)
  have fields: "own_prop broken_rule ''id'' = JStr ''broken_rule''"
               "own_prop broken_rule ''weight'' = JNum 10"
    by (simp_all add: broken_rule_def mk_rule_def)
  from syntax_error_result_without_error
         [where new_Function = js_fragment and host = quiet_host,
          OF h1 h2 h3 h4 h5 broken_new_Function]
  show ?thesis
    by (simp only: ids fields)
qed

text \<open>
  Claim C2 as stated fails: the condition \<^verbatim>\<open>fingerprint.userAgent &&\<close> does not parse,
  and the result of its rule has no \<^verbatim>\<open>error\<close>.
\<close>

theorem syntax_error_not_reported:
  "(js_fragment :: unit function_ctor) (replace_paths ''fingerprint.userAgent &&'')
     = Inl SyntaxError
   \<and> evaluateRules js_fragment quiet_host [broken_rule, test_rule] sample_data
      = Inr [\<lparr>r_id = JStr ''broken_rule'', r_name = JStr ''Broken Rule'', passed = False,
              weight = JNum 10, score = JNum 0, action = JStr ''allow'',
              condition = JStr ''fingerprint.userAgent &&'',
              description = JStr ''A condition that ends in an operator'', error = None\<rparr>,
             \<lparr>r_id = JStr ''test_rule'', r_name = JStr ''Test Rule'', passed = True,
              weight = JNum 10, score = JNum 10, action = JStr ''allow'',
              condition = JStr ''true'',
              description = JStr ''A rule that holds'', error = None\<rparr>]"
  using broken_new_Function broken_results by (rule conjI)


section \<open>Properties of conditions on absent paths\<close>

lemma takeWhile_word:
  "list_all word_char w \<Longrightarrow> rest = [] \<or> \<not> word_char (hd rest) \<Longrightarrow>
   takeWhile word_char (w @ rest) = w"
  by (cases rest) (auto simp: list_all_iff takeWhile_append2)

lemma dropWhile_word:
  "list_all word_char w \<Longrightarrow> rest = [] \<or> \<not> word_char (hd rest) \<Longrightarrow>
   dropWhile word_char (w @ rest) = rest"
  by (cases rest) (auto simp: list_all_iff dropWhile_append2)

lemma replace_paths_pair:
  assumes "a \<noteq> []" "list_all word_char a" "b \<noteq> []" "list_all word_char b"
  shows "replace_paths (a @ ''.'' @ b) = replacement a b"
proof -
  obtain c cs where a: "a = c # cs"
    using assms(1) by (cases a) auto
  obtain e es where b: "b = e # es"
    using assms(3) by (cases b) auto
  have dot: "\<not> word_char CHR ''.''"
    by (simp add: word_char_def)
  have c: "word_char c" and e: "word_char e"
    using assms(2,4) by (simp_all add: a b)
  have tw: "takeWhile word_char (c # cs @ ''.'' @ b) = a"
    using takeWhile_word [OF assms(2), of "''.'' @ b"] dot by (simp add: a)
  have dw: "dropWhile word_char (c # cs @ ''.'' @ b) = CHR ''.'' # e # es"
    using dropWhile_word [OF assms(2), of "''.'' @ b"] dot by (simp add: a b)
  have twb: "takeWhile word_char (e # es) = b"
    using takeWhile_word [OF assms(4), of "[]"] by (simp add: b)
  have dwb: "dropWhile word_char (e # es) = []"
    using dropWhile_word [OF assms(4), of "[]"] by (simp add: b)
  have "replace_paths (c # cs @ ''.'' @ b) = replacement a b"
    by (subst replace_paths.simps(2))
       (simp only: tw dw twb dwb c e Let_def list.case if_True simp_thms
          replace_paths.simps(1) append_Nil2)
  then show ?thesis
    by (simp add: a)
qed

lemma tokenize_blank: "tokenize (CHR '' '' # rest) = tokenize rest"
  by (simp add: tokenize.simps(2))

lemma tokenize_lparen: "tokenize (CHR ''('' # rest) = cons_token (TPunct LParen) (tokenize rest)"
  by (simp add: tokenize.simps(2) digit_char_def word_char_def)

lemma tokenize_rparen: "tokenize (CHR '')'' # rest) = cons_token (TPunct RParen) (tokenize rest)"
  by (simp add: tokenize.simps(2) digit_char_def word_char_def)

lemma tokenize_colon: "tokenize (CHR '':'' # rest) = cons_token (TPunct Colon) (tokenize rest)"
  by (simp add: tokenize.simps(2) digit_char_def word_char_def)

lemma tokenize_and:
  "tokenize (CHR ''&'' # CHR ''&'' # CHR '' '' # rest)
     = cons_token (TPunct AndAnd) (tokenize (CHR '' '' # rest))"
  by (simp add: tokenize.simps(2) [of "CHR ''&''"] digit_char_def word_char_def)

lemma tokenize_question:
  "tokenize (CHR ''?'' # CHR '' '' # rest)
     = cons_token (TPunct Question) (tokenize (CHR '' '' # rest))"
  by (simp add: tokenize.simps(2) [of "CHR ''?''"] digit_char_def word_char_def)

lemma word_char_not_special:
  assumes "word_char c"
  shows "c \<noteq> CHR '' ''" "c \<noteq> CHR 0x09" "c \<noteq> CHR ''.''"
  using assms by (auto simp: word_char_def)

lemma tokenize_dot:
  assumes "is_identifier w"
  shows "tokenize (CHR ''.'' # w @ rest) = cons_token (TPunct Dot) (tokenize (w @ rest))"
proof -
  obtain c cs where w: "w = c # cs"
    using assms by (cases w) (auto simp: is_identifier_def)
  have "word_char c" "\<not> digit_char c"
    using assms by (simp_all add: is_identifier_def w)
  then show ?thesis
    by (simp add: w tokenize.simps(2) [of "CHR ''.''"] digit_char_def word_char_def
          word_char_not_special)
qed

lemma tokenize_word:
  assumes "is_identifier w" and "rest = [] \<or> \<not> word_char (hd rest)"
  shows "tokenize (w @ rest) = cons_token (TWord w) (tokenize rest)"
proof -
  obtain c cs where w: "w = c # cs"
    using assms(1) by (cases w) (auto simp: is_identifier_def)
  have c: "word_char c" "\<not> digit_char c" and all: "list_all word_char w"
    and nr: "w \<notin> set reserved_words"
    using assms(1) by (simp_all add: is_identifier_def w)
  have tw: "takeWhile word_char (c # cs @ rest) = w"
    using takeWhile_word [OF all assms(2)] by (simp add: w)
  have dw: "dropWhile word_char (c # cs @ rest) = rest"
    using dropWhile_word [OF all assms(2)] by (simp add: w)
  have "tokenize (c # cs @ rest) = cons_token (TWord w) (tokenize rest)"
    by (subst tokenize.simps(2))
       (simp only: tw dw c nr Let_def if_True if_False word_char_not_special [OF c(1)] simp_thms)
  then show ?thesis
    by (simp add: w)
qed


lemma tokenize_path:
  assumes "is_identifier a" "is_identifier b" "rest = [] \<or> \<not> word_char (hd rest)"
  shows "tokenize (a @ ''.'' @ b @ rest)
         = cons_token (TWord a) (cons_token (TPunct Dot) (cons_token (TWord b) (tokenize rest)))"
proof -
  have "tokenize (a @ ''.'' @ b @ rest) = cons_token (TWord a) (tokenize (''.'' @ b @ rest))"
    using assms(1) by (rule tokenize_word) (simp add: word_char_def)
  also have "tokenize (''.'' @ b @ rest) = cons_token (TPunct Dot) (tokenize (b @ rest))"
    using tokenize_dot [OF assms(2)] by simp
  also have "tokenize (b @ rest) = cons_token (TWord b) (tokenize rest)"
    using assms(2,3) by (rule tokenize_word)
  finally show ?thesis .
qed

lemma null_identifier: "is_identifier ''null''"
  by (simp add: is_identifier_def word_char_def digit_char_def reserved_words_def)


lemma tokenize_guard:
  assumes "is_identifier a" "is_identifier b"
  shows "tokenize (replacement a b) = Inr (guard_tokens a b)"
proof -
  have t1: "tokenize '' : null)'' = Inr [TPunct Colon, TWord ''null'', TPunct RParen]"
    using tokenize_word [OF null_identifier, of "'')''"]
    by (simp add: tokenize_blank tokenize_colon tokenize_rparen tokenize.simps(1)
          cons_token_def word_char_def)
  have t2: "tokenize (a @ ''.'' @ b @ '' : null)'')
            = Inr [TWord a, TPunct Dot, TWord b, TPunct Colon, TWord ''null'', TPunct RParen]"
    using tokenize_path [OF assms, of "'' : null)''"] t1
    by (simp add: cons_token_def word_char_def)
  have t3: "tokenize ('' ? '' @ a @ ''.'' @ b @ '' : null)'')
            = Inr [TPunct Question, TWord a, TPunct Dot, TWord b, TPunct Colon,
                   TWord ''null'', TPunct RParen]"
    using t2 by (simp add: tokenize_blank tokenize_question cons_token_def)
  have t4: "tokenize (a @ ''.'' @ b @ '' ? '' @ a @ ''.'' @ b @ '' : null)'')
            = Inr [TWord a, TPunct Dot, TWord b, TPunct Question, TWord a, TPunct Dot, TWord b,
                   TPunct Colon, TWord ''null'', TPunct RParen]"
    using tokenize_path [OF assms, of "'' ? '' @ a @ ''.'' @ b @ '' : null)''"] t3
    by (simp add: cons_token_def word_char_def)
  have t5: "tokenize ('' && '' @ a @ ''.'' @ b @ '' ? '' @ a @ ''.'' @ b @ '' : null)'')
            = Inr [TPunct AndAnd, TWord a, TPunct Dot, TWord b, TPunct Question, TWord a,
                   TPunct Dot, TWord b, TPunct Colon, TWord ''null'', TPunct RParen]"
    using t4 by (simp add: tokenize_blank tokenize_and cons_token_def)
  have t6: "tokenize (a @ '' && '' @ a @ ''.'' @ b @ '' ? '' @ a @ ''.'' @ b @ '' : null)'')
            = Inr [TWord a, TPunct AndAnd, TWord a, TPunct Dot, TWord b, TPunct Question, TWord a,
                   TPunct Dot, TWord b, TPunct Colon, TWord ''null'', TPunct RParen]"
    using tokenize_word [OF assms(1),
            of "'' && '' @ a @ ''.'' @ b @ '' ? '' @ a @ ''.'' @ b @ '' : null)''"] t5
    by (simp add: cons_token_def word_char_def)
  show ?thesis
    using t6 by (simp add: replacement_def Let_def tokenize_lparen cons_token_def guard_tokens_def)
qed

lemmas parse_numeral =
  parse_expr.simps(2) [of "pred_numeral k" for k, folded numeral_eq_Suc]
  parse_binary.simps(2) [of "pred_numeral k" for k, folded numeral_eq_Suc]
  parse_binary_rest.simps(2) [of "pred_numeral k" for k, folded numeral_eq_Suc]
  parse_unary.simps(2) [of "pred_numeral k" for k, folded numeral_eq_Suc]
  parse_postfix.simps(2) [of "pred_numeral k" for k, folded numeral_eq_Suc]
  parse_args.simps(2) [of "pred_numeral k" for k, folded numeral_eq_Suc]

lemma parse_guard:
  assumes "a \<noteq> ''true''" "a \<noteq> ''false''" "a \<noteq> ''null''"
  shows "parse_expr 112 (guard_tokens a b)
         = Inr (Cond (And (Var a) (Member (Var a) b)) (Member (Var a) b) (Lit JNull), [])"
  using assms
  by (simp add: guard_tokens_def parse_numeral expect_def operator_def atom_def
        name_after_dot_def word_expr_def mk_binary_def)



lemma parse_condition_guard:
  assumes "is_identifier a" "is_identifier b" "a \<noteq> ''true''" "a \<noteq> ''false''" "a \<noteq> ''null''"
  shows "parse_condition (replacement a b) = Inr (Some (guard_expr a b))"
proof -
  have len: "8 * Suc (length (guard_tokens a b)) = 112"
    by (simp add: guard_tokens_def)
  have ne: "guard_tokens a b \<noteq> []"
    by (simp add: guard_tokens_def)
  show ?thesis
    unfolding parse_condition_def tokenize_guard [OF assms(1,2)] sum.case len
    using ne by (simp add: parse_guard [OF assms(3-5)] guard_expr_def)
qed

lemma section_identifier:
  assumes "sec \<in> {''fingerprint'', ''behavioral'', ''facial''}"
  shows "is_identifier sec" "sec \<noteq> ''true''" "sec \<noteq> ''false''" "sec \<noteq> ''null''"
        "sec \<in> set bound_names" "sec \<noteq> ''undefined''" "sec \<noteq> ''context''"
  using assms
  by (auto simp: is_identifier_def word_char_def digit_char_def reserved_words_def bound_names_def)

lemma guard_absent:
  assumes "sec \<in> {''fingerprint'', ''behavioral'', ''facial''}"
    and "f \<notin> set object_prototype_names"
    and "own_prop ctx sec = js_or (own_prop data sec) (JObj [])"
    and "nullish (own_prop data sec)
         \<or> (\<exists>kvs. own_prop data sec = JObj kvs \<and> nullish (own_prop (JObj kvs) f))"
  shows "eval_expr ctx (guard_expr sec f) = Inr JNull"
proof -
  note sec = section_identifier [OF assms(1)]
  have var: "eval_expr ctx (Var sec) = Inr (js_or (own_prop data sec) (JObj []))"
    using sec assms(3) by simp
  have nt: "\<not> truthy v" if "nullish v" for v
    using that by (cases v) auto
  from assms(4) show ?thesis
  proof
    assume "nullish (own_prop data sec)"
    then have "js_or (own_prop data sec) (JObj []) = JObj []"
      by (simp add: js_or_def nt)
    then show ?thesis
      using assms(2) by (simp add: guard_expr_def var del: eval_expr.simps(2))
  next
    assume "\<exists>kvs. own_prop data sec = JObj kvs \<and> nullish (own_prop (JObj kvs) f)"
    then obtain kvs where kvs: "own_prop data sec = JObj kvs" "nullish (own_prop (JObj kvs) f)"
      by blast
    have obj: "js_or (own_prop data sec) (JObj []) = JObj kvs"
      by (simp add: js_or_def kvs)
    have "\<exists>v. read_member (JObj kvs) f = Inr v \<and> \<not> truthy v"
      using kvs(2) assms(2) nt by (auto split: option.splits)
    then obtain v where v: "read_member (JObj kvs) f = Inr v" "\<not> truthy v"
      by blast
    show ?thesis
      by (simp add: guard_expr_def var obj v del: eval_expr.simps(2) read_member.simps)
  qed
qed

lemma path_condition_absent:
  assumes "sec \<in> {''fingerprint'', ''behavioral'', ''facial''}" and "is_identifier f"
    and "f \<notin> set object_prototype_names" and "\<not> nullish data"
    and "nullish (own_prop data sec)
         \<or> (\<exists>kvs. own_prop data sec = JObj kvs \<and> nullish (own_prop (JObj kvs) f))"
    and "createSafeContext data = Inr ctx"
  shows "\<not> evaluateCondition js_fragment h (JStr (sec @ ''.'' @ f)) ctx"
proof -
  note sec = section_identifier [OF assms(1)]
  have rp: "replace_paths (sec @ ''.'' @ f) = replacement sec f"
    using sec(1) assms(2) by (intro replace_paths_pair) (simp_all add: is_identifier_def)
  have ctx: "own_prop ctx sec = js_or (own_prop data sec) (JObj [])" "\<not> nullish ctx"
    using assms(1,4,6) by (auto simp: createSafeContext_def)
  have "eval_expr ctx (guard_expr sec f) = Inr JNull"
    using assms(1,3) ctx(1) assms(5) by (rule guard_absent)
  with rp show ?thesis
    by (simp add: evaluateCondition_def js_fragment_def
          parse_condition_guard [OF sec(1) assms(2) sec(2-4)] ctx(2))
qed

lemma section_names:
  "sec \<in> set sections \<longleftrightarrow> sec \<in> {''fingerprint'', ''behavioral'', ''facial''}"
  by (auto simp: sections_def)

lemma guard_value:
  assumes "sec \<in> set sections" and "f \<notin> set object_prototype_names"
    and "own_prop ctx sec = js_or (own_prop data sec) (JObj [])"
    and "case own_prop data sec of
           JUndefined \<Rightarrow> True | JNull \<Rightarrow> True | JObj kvs \<Rightarrow> True | _ \<Rightarrow> False"
  shows "\<exists>v. eval_expr ctx (guard_expr sec f) = Inr v \<and> truthy v = path_holds data sec f"
proof -
  note sec = section_identifier [OF assms(1) [unfolded section_names]]
  have var: "eval_expr ctx (Var sec) = Inr (js_or (own_prop data sec) (JObj []))"
    using sec assms(3) by simp
  have empty: "eval_expr ctx (guard_expr sec f) = Inr JNull"
    if "js_or (own_prop data sec) (JObj []) = JObj []"
    using that assms(2) by (simp add: guard_expr_def var del: eval_expr.simps(2))
  show ?thesis
  proof (cases "own_prop data sec")
    case JUndefined
    then show ?thesis
      using empty by (simp add: js_or_def path_holds_def)
  next
    case JNull
    then show ?thesis
      using empty by (simp add: js_or_def path_holds_def)
  next
    case (JObj kvs)
    have obj: "js_or (own_prop data sec) (JObj []) = JObj kvs"
      by (simp add: js_or_def JObj)
    have rd: "read_member (JObj kvs) f = Inr (own_prop (JObj kvs) f)"
      using assms(2) by (simp split: option.splits)
    have varobj: "eval_expr ctx (Var sec) = Inr (JObj kvs)"
      using var obj by simp
    have holds: "path_holds data sec f = truthy (own_prop (JObj kvs) f)"
      by (simp add: path_holds_def JObj)
    show ?thesis
      unfolding holds
      by (simp add: guard_expr_def varobj rd
            del: eval_expr.simps(2) read_member.simps own_prop.simps)
  qed (use assms(4) in simp_all)
qed

lemma guard_of_Some: "guard_of e = Some (s, f) \<Longrightarrow> e = guard_expr s f"
  by (auto simp: guard_of_def split: expr.splits if_splits)

lemma safe_context_section:
  assumes "createSafeContext data = Inr ctx" and "sec \<in> set sections"
  shows "own_prop ctx sec = js_or (own_prop data sec) (JObj [])"
  using assms by (auto simp: createSafeContext_def sections_def split: if_splits)

lemma truth_value_eval:
  assumes "createSafeContext data = Inr ctx" and "sections_well_formed data"
  shows "truth_value data e = Some b \<Longrightarrow> \<exists>v. eval_expr ctx e = Inr v \<and> truthy v = b"
proof (induction e arbitrary: b)
  case (Lit v)
  then show ?case by (simp split: if_splits)
next
  case (Var x)
  then have x: "x \<in> set sections"
    by (simp split: if_splits)
  note sec = section_identifier [OF x [unfolded section_names]]
  have "truthy (js_or v (JObj []))" for v
    by (simp add: js_or_def)
  then show ?case
    using Var sec safe_context_section [OF assms(1) x] by (simp split: if_splits)
next
  case (Not e)
  from Not.prems obtain b' where b': "truth_value data e = Some b'" "b = (\<not> b')"
    by auto
  from Not.IH [OF b'(1)] obtain v where "eval_expr ctx e = Inr v" "truthy v = b'"
    by blast
  with b'(2) show ?case by simp
next
  case (And a c)
  from And.prems obtain x y where xy: "truth_value data a = Some x" "truth_value data c = Some y"
      "b = (x \<and> y)"
    by (auto split: option.splits)
  from And.IH(1) [OF xy(1)] obtain va where va: "eval_expr ctx a = Inr va" "truthy va = x"
    by blast
  from And.IH(2) [OF xy(2)] obtain vc where vc: "eval_expr ctx c = Inr vc" "truthy vc = y"
    by blast
  from xy(3) va vc show ?case by auto
next
  case (Or a c)
  from Or.prems obtain x y where xy: "truth_value data a = Some x" "truth_value data c = Some y"
      "b = (x \<or> y)"
    by (auto split: option.splits)
  from Or.IH(1) [OF xy(1)] obtain va where va: "eval_expr ctx a = Inr va" "truthy va = x"
    by blast
  from Or.IH(2) [OF xy(2)] obtain vc where vc: "eval_expr ctx c = Inr vc" "truthy vc = y"
    by blast
  from xy(3) va vc show ?case by auto
next
  case (Cond c a d)
  from Cond.prems obtain s f where g: "guard_of (Cond c a d) = Some (s, f)"
      and s: "s \<in> set sections" and f: "f \<notin> set object_prototype_names"
      and b: "b = path_holds data s f"
    by (auto split: option.splits if_splits)
  have wf: "case own_prop data s of
              JUndefined \<Rightarrow> True | JNull \<Rightarrow> True | JObj kvs \<Rightarrow> True | _ \<Rightarrow> False"
    using assms(2) s by (simp add: sections_well_formed_def list_all_iff)
  from guard_value [OF s f safe_context_section [OF assms(1) s] wf] guard_of_Some [OF g] b
  show ?case by simp
qed simp_all

lemma combination_condition:
  assumes "createSafeContext data = Inr ctx" and "sections_well_formed data"
    and "parse_condition (replace_paths c) = Inr (Some e)" and "truth_value data e = Some b"
  shows "evaluateCondition js_fragment h (JStr c) ctx = b"
proof -
  have "\<not> nullish ctx"
    using assms(1) by (auto simp: createSafeContext_def split: if_splits)
  with truth_value_eval [OF assms(1,2,4)] show ?thesis
    by (auto simp: evaluateCondition_def js_fragment_def assms(3))
qed

text \<open>
  Claim C7, as the code has it. For data and a rule that are objects, no rule gets an
  \<^verbatim>\<open>error\<close>, whatever its condition, whatever the constructor does and whatever the
  state of the host. With the constructor of the fragment, and data whose sections are
  absent or objects: when the guarded text of the condition reads as a combination by
  \<^verbatim>\<open>!\<close>, \<^verbatim>\<open>&&\<close> and \<^verbatim>\<open>||\<close> of two-segment paths \<^verbatim>\<open>section.field\<close> (the section one of
  \<^verbatim>\<open>fingerprint\<close>, \<^verbatim>\<open>behavioral\<close>, \<^verbatim>\<open>facial\<close>; the field a name that is not inherited
  from \<^verbatim>\<open>Object.prototype\<close>), bare section names and literals, \<^verbatim>\<open>passed\<close> is the truth
  value of the combination computed with \<open>false\<close> for every absent path, and the score is
  the weight or 0 accordingly. In particular a rule whose condition is one such path has
  \<^verbatim>\<open>passed\<close> false and the score 0 when the section is absent, or is an object in which
  the field is absent.
\<close>

theorem absent_path_no_error:
  assumes "\<not> nullish data" and "\<not> nullish rule"
  shows "(\<exists>res. evaluateRule new_Function h rule data = Inr res \<and> error res = None)
       \<and> (sections_well_formed data
            \<longrightarrow> own_prop rule ''condition'' = JStr c
            \<longrightarrow> parse_condition (replace_paths c) = Inr (Some e)
            \<longrightarrow> truth_value data e = Some b
            \<longrightarrow> (\<exists>res. evaluateRule js_fragment h rule data = Inr res
                       \<and> passed res = b
                       \<and> score res = (if b then own_prop rule ''weight'' else JNum 0)
                       \<and> error res = None))
       \<and> (sec \<in> set sections
            \<longrightarrow> is_identifier f \<longrightarrow> f \<notin> set object_prototype_names
            \<longrightarrow> (nullish (own_prop data sec)
                 \<or> (\<exists>kvs. own_prop data sec = JObj kvs \<and> nullish (own_prop (JObj kvs) f)))
            \<longrightarrow> own_prop rule ''condition'' = JStr (sec @ ''.'' @ f)
            \<longrightarrow> (\<exists>res. evaluateRule js_fragment h rule data = Inr res
                       \<and> \<not> passed res \<and> score res = JNum 0 \<and> error res = None))"
proof (intro conjI impI)
  show "\<exists>res. evaluateRule new_Function h rule data = Inr res \<and> error res = None"
    using assms by (simp add: evaluateRule_def createSafeContext_def Let_def)
next
  from assms(1) obtain ctx where ctx: "createSafeContext data = Inr ctx"
    by (auto simp: createSafeContext_def)
  assume "sections_well_formed data" "own_prop rule ''condition'' = JStr c"
    "parse_condition (replace_paths c) = Inr (Some e)" "truth_value data e = Some b"
  with combination_condition [OF ctx, of c e b h]
  show "\<exists>res. evaluateRule js_fragment h rule data = Inr res
               \<and> passed res = b
               \<and> score res = (if b then own_prop rule ''weight'' else JNum 0)
               \<and> error res = None"
    using assms(2) by (simp add: evaluateRule_def ctx Let_def)
next
  assume h: "sec \<in> set sections" "is_identifier f"
    "f \<notin> set object_prototype_names"
    "nullish (own_prop data sec)
     \<or> (\<exists>kvs. own_prop data sec = JObj kvs \<and> nullish (own_prop (JObj kvs) f))"
    "own_prop rule ''condition'' = JStr (sec @ ''.'' @ f)"
  from assms(1) obtain ctx where ctx: "createSafeContext data = Inr ctx"
    by (auto simp: createSafeContext_def)
  have "\<not> evaluateCondition js_fragment h (JStr (sec @ ''.'' @ f)) ctx"
    using h(1) [unfolded section_names] h(2,3) assms(1) h(4) ctx by (rule path_condition_absent)
  then show "\<exists>res. evaluateRule js_fragment h rule data = Inr res
               \<and> \<not> passed res \<and> score res = JNum 0 \<and> error res = None"
    using h(5) assms(2) by (simp add: evaluateRule_def ctx Let_def)
qed

lemma createSafeContext_sample: "createSafeContext sample_data = Inr sample_context"
  by (simp add: createSafeContext_def sample_data_def js_or_def sample_context_def)

lemma bare_rewrite: "replace_paths ''behavioral'' = ''behavioral''"
  by code_simp

lemma bare_parse: "parse_condition ''behavioral'' = Inr (Some (Var ''behavioral''))"
  by code_simp

lemma few_rewrite:
  "replace_paths ''behavioral.totalEvents < 5''
     = ''(behavioral && behavioral.totalEvents ? behavioral.totalEvents : null) < 5''"
  by code_simp

lemma few_parse:
  "parse_condition ''(behavioral && behavioral.totalEvents ? behavioral.totalEvents : null) < 5''
     = Inr (Some (Compare Lt (guard_expr ''behavioral'' ''totalEvents'') (Lit (JNum 5))))"
  by code_simp

lemma click_rewrite:
  "replace_paths ''behavioral.metrics.clickFrequency > 0.5 || true''
     = ''(behavioral && behavioral.metrics ? behavioral.metrics : null).clickFrequency > (0 && 0.5 ? 0.5 : null) || true''"
  by code_simp

lemma click_parse:
  "parse_condition
     ''(behavioral && behavioral.metrics ? behavioral.metrics : null).clickFrequency > (0 && 0.5 ? 0.5 : null) || true''
     = Inr (Some (Or (Compare Gt
                        (Member (guard_expr ''behavioral'' ''metrics'') ''clickFrequency'')
                        (Cond (And (Lit (JNum 0)) (Lit (JNum 0.5))) (Lit (JNum 0.5)) (Lit JNull)))
                     (Lit (JBool True))))"
  by code_simp

lemma absent_conditions:
  "evaluateCondition js_fragment h (JStr ''behavioral'') sample_context"
  "evaluateCondition js_fragment h (JStr ''behavioral.totalEvents < 5'') sample_context"
  "\<not> evaluateCondition js_fragment h
       (JStr ''behavioral.metrics.clickFrequency > 0.5 || true'') sample_context"
  by (simp_all add: sample_context_def evaluateCondition_def js_fragment_def
        bare_rewrite bare_parse few_rewrite few_parse click_rewrite click_parse
        guard_expr_def bound_names_def relational_def object_prototype_names_def)

lemma completeness_rewrite:
  "replace_paths
     ''fingerprint.userAgent && fingerprint.canvasFingerprint && fingerprint.webglFingerprint''
   = ''(fingerprint && fingerprint.userAgent ? fingerprint.userAgent : null) && (fingerprint && fingerprint.canvasFingerprint ? fingerprint.canvasFingerprint : null) && (fingerprint && fingerprint.webglFingerprint ? fingerprint.webglFingerprint : null)''"
  by code_simp

lemma completeness_parse:
  "parse_condition
     ''(fingerprint && fingerprint.userAgent ? fingerprint.userAgent : null) && (fingerprint && fingerprint.canvasFingerprint ? fingerprint.canvasFingerprint : null) && (fingerprint && fingerprint.webglFingerprint ? fingerprint.webglFingerprint : null)''
   = Inr (Some (And (And (guard_expr ''fingerprint'' ''userAgent'')
                         (guard_expr ''fingerprint'' ''canvasFingerprint''))
                    (guard_expr ''fingerprint'' ''webglFingerprint'')))"
  by code_simp

lemma no_events_rewrite:
  "replace_paths ''!behavioral.totalEvents || !fingerprint.userAgent''
   = ''!(behavioral && behavioral.totalEvents ? behavioral.totalEvents : null) || !(fingerprint && fingerprint.userAgent ? fingerprint.userAgent : null)''"
  by code_simp

lemma no_events_parse:
  "parse_condition
     ''!(behavioral && behavioral.totalEvents ? behavioral.totalEvents : null) || !(fingerprint && fingerprint.userAgent ? fingerprint.userAgent : null)''
   = Inr (Some (Or (Not (guard_expr ''behavioral'' ''totalEvents''))
                   (Not (guard_expr ''fingerprint'' ''userAgent''))))"
  by code_simp

lemma sample_sections: "sections_well_formed sample_data"
  by (simp add: sections_well_formed_def sections_def sample_data_def)

lemma guard_truth_value:
  "truth_value data (guard_expr s f)
     = (if s \<in> set sections \<and> f \<notin> set object_prototype_names
        then Some (path_holds data s f) else None)"
  by (simp add: guard_expr_def guard_of_def)

lemma sample_paths:
  "path_holds sample_data ''fingerprint'' ''userAgent''"
  "\<not> path_holds sample_data ''fingerprint'' ''canvasFingerprint''"
  "\<not> path_holds sample_data ''fingerprint'' ''webglFingerprint''"
  "\<not> path_holds sample_data ''behavioral'' ''totalEvents''"
  by (simp_all add: path_holds_def sample_data_def)

lemma completeness_truth:
  "truth_value sample_data
     (And (And (guard_expr ''fingerprint'' ''userAgent'')
               (guard_expr ''fingerprint'' ''canvasFingerprint''))
          (guard_expr ''fingerprint'' ''webglFingerprint'')) = Some False"
  by (simp add: guard_truth_value sample_paths sections_def object_prototype_names_def)

lemma no_events_truth:
  "truth_value sample_data
     (Or (Not (guard_expr ''behavioral'' ''totalEvents''))
         (Not (guard_expr ''fingerprint'' ''userAgent''))) = Some True"
  by (simp add: guard_truth_value sample_paths sections_def object_prototype_names_def)

lemma totalEvents_identifier: "is_identifier ''totalEvents''"
  by (simp add: is_identifier_def word_char_def digit_char_def reserved_words_def)

text \<open>
  The theorem at data that has a fingerprint section with a user agent only: the first
  built-in rule, a conjunction of three paths of which two are absent, does not pass; a
  disjunction of two negated paths passes by its absent path; the single absent path
  \<^verbatim>\<open>behavioral.totalEvents\<close> does not pass.
\<close>

theorem absent_path_no_error_witness:
  "(\<exists>res. evaluateRule js_fragment () fingerprint_completeness_rule sample_data = Inr res
          \<and> \<not> passed res \<and> score res = JNum 0 \<and> error res = None)
   \<and> (\<exists>res. evaluateRule js_fragment () no_events_rule sample_data = Inr res
          \<and> passed res \<and> score res = JNum (- 5) \<and> error res = None)
   \<and> (\<exists>res. evaluateRule js_fragment () total_events_rule sample_data = Inr res
          \<and> \<not> passed res \<and> score res = JNum 0 \<and> error res = None)"
proof -
  have h1: "\<not> nullish sample_data"
    by (simp add: sample_data_def)
  have r1: "\<not> nullish fingerprint_completeness_rule"
    and c1: "own_prop fingerprint_completeness_rule ''condition''
        = JStr ''fingerprint.userAgent && fingerprint.canvasFingerprint && fingerprint.webglFingerprint''"
    by (simp_all add: fingerprint_completeness_rule_def mk_rule_def)
  have r2: "\<not> nullish no_events_rule"
    and c2: "own_prop no_events_rule ''condition''
        = JStr ''!behavioral.totalEvents || !fingerprint.userAgent''"
    and w2: "own_prop no_events_rule ''weight'' = JNum (- 5)"
    by (simp_all add: no_events_rule_def mk_rule_def)
  have r3: "\<not> nullish total_events_rule"
    and c3: "own_prop total_events_rule ''condition'' = JStr (''behavioral'' @ ''.'' @ ''totalEvents'')"
    by (simp_all add: total_events_rule_def mk_rule_def)
  have s3: "''behavioral'' \<in> set sections"
    and f3: "''totalEvents'' \<notin> set object_prototype_names"
    and a3: "nullish (own_prop sample_data ''behavioral'')"
    by (simp_all add: sections_def object_prototype_names_def sample_data_def)
  have p1: "parse_condition (replace_paths
       ''fingerprint.userAgent && fingerprint.canvasFingerprint && fingerprint.webglFingerprint'')
     = Inr (Some (And (And (guard_expr ''fingerprint'' ''userAgent'')
                         (guard_expr ''fingerprint'' ''canvasFingerprint''))
                    (guard_expr ''fingerprint'' ''webglFingerprint'')))"
    by (simp only: completeness_rewrite completeness_parse)
  have p2: "parse_condition (replace_paths ''!behavioral.totalEvents || !fingerprint.userAgent'')
     = Inr (Some (Or (Not (guard_expr ''behavioral'' ''totalEvents''))
                   (Not (guard_expr ''fingerprint'' ''userAgent''))))"
    by (simp only: no_events_rewrite no_events_parse)
  from absent_path_no_error [OF h1 r1, where new_Function = js_fragment and h = "()"]
       sample_sections c1 p1 completeness_truth
  have 1: "\<exists>res. evaluateRule js_fragment () fingerprint_completeness_rule sample_data = Inr res
          \<and> \<not> passed res \<and> score res = JNum 0 \<and> error res = None"
    by (metis (full_types))
  from absent_path_no_error [OF h1 r2, where new_Function = js_fragment and h = "()"]
       sample_sections c2 p2 no_events_truth w2
  have 2: "\<exists>res. evaluateRule js_fragment () no_events_rule sample_data = Inr res
          \<and> passed res \<and> score res = JNum (- 5) \<and> error res = None"
    by (metis (full_types))
  from absent_path_no_error [OF h1 r3, where new_Function = js_fragment and h = "()"]
       s3 totalEvents_identifier f3 a3 c3
  have 3: "\<exists>res. evaluateRule js_fragment () total_events_rule sample_data = Inr res
          \<and> \<not> passed res \<and> score res = JNum 0 \<and> error res = None"
    by blast
  from 1 2 3 show ?thesis by blast
qed

text \<open>
  Claim C7 as stated fails, for data without a behavioral section. The bare section name
  \<^verbatim>\<open>behavioral\<close> is the empty object of the context and the rule passes. The comparison
  \<^verbatim>\<open>behavioral.totalEvents < 5\<close> compares the \<^verbatim>\<open>null\<close> of the guard and is true. In
  \<^verbatim>\<open>behavioral.metrics.clickFrequency > 0.5 || true\<close> the read below the absent segment
  \<^verbatim>\<open>metrics\<close> throws, and the rule does not pass although the disjunction has a true
  operand.
\<close>

theorem absent_section_not_false:
  "evaluateRules js_fragment quiet_host
     [bare_section_rule, few_events_rule, click_or_true_rule] sample_data
     = Inr [\<lparr>r_id = JStr ''has_behavioral'', r_name = JStr ''Has Behavioral'', passed = True,
             weight = JNum 15, score = JNum 15, action = JStr ''allow'',
             condition = JStr ''behavioral'',
             description = JStr ''Behavioral data was supplied'', error = None\<rparr>,
            \<lparr>r_id = JStr ''few_events'', r_name = JStr ''Few Events'', passed = True,
             weight = JNum (- 10), score = JNum (- 10), action = JStr ''review'',
             condition = JStr ''behavioral.totalEvents < 5'',
             description = JStr ''Fewer than five events'', error = None\<rparr>,
            \<lparr>r_id = JStr ''click_or_true'', r_name = JStr ''Click Or True'', passed = False,
             weight = JNum 5, score = JNum 0, action = JStr ''allow'',
             condition = JStr ''behavioral.metrics.clickFrequency > 0.5 || true'',
             description = JStr ''A disjunction with a constant'', error = None\<rparr>]"
  by (simp add: bare_section_rule_def few_events_rule_def click_or_true_rule_def mk_rule_def
        evaluateRule_def createSafeContext_sample Let_def absent_conditions)


section \<open>Properties of a verification\<close>

lemma evaluateCondition_same:
  assumes "\<forall>c f. cond = JStr c \<longrightarrow> new_Function (replace_paths c) = Inr f
             \<longrightarrow> (\<forall>h h' ctx. f h ctx = f h' ctx)"
  shows "evaluateCondition new_Function h1 cond context
         = evaluateCondition new_Function h2 cond context"
proof (cases cond)
  case (JStr c)
  show ?thesis
  proof (cases "new_Function (replace_paths c)")
    case (Inl x)
    then show ?thesis by (simp add: evaluateCondition_def JStr)
  next
    case (Inr f)
    with assms JStr have "f h1 context = f h2 context"
      by blast
    with Inr show ?thesis by (simp add: evaluateCondition_def JStr)
  qed
qed (simp_all add: evaluateCondition_def)

lemma evaluateRule_same:
  assumes "\<forall>c f. own_prop rule ''condition'' = JStr c \<longrightarrow> new_Function (replace_paths c) = Inr f
             \<longrightarrow> (\<forall>h h' ctx. f h ctx = f h' ctx)"
  shows "evaluateRule new_Function h1 rule data = evaluateRule new_Function h2 rule data"
  unfolding evaluateRule_def
  using evaluateCondition_same [OF assms, of h1 _ h2] by (simp split: sum.splits)

lemma evaluateRules_same:
  assumes "\<forall>r \<in> set rs. \<forall>c f. own_prop r ''condition'' = JStr c
             \<longrightarrow> new_Function (replace_paths c) = Inr f
             \<longrightarrow> (\<forall>h h' ctx. f h ctx = f h' ctx)"
  shows "evaluateRules new_Function host1 rs data = evaluateRules new_Function host2 rs data"
  using assms
proof (induction rs arbitrary: host1 host2)
  case Nil
  show ?case by simp
next
  case (Cons r rs)
  have r: "evaluateRule new_Function (host1 0) r data = evaluateRule new_Function (host2 0) r data"
    using Cons.prems by (intro evaluateRule_same) simp
  have rs: "evaluateRules new_Function (\<lambda>i. host1 (Suc i)) rs data
          = evaluateRules new_Function (\<lambda>i. host2 (Suc i)) rs data"
    using Cons.prems by (intro Cons.IH) simp
  show ?case
    by (simp only: evaluateRules.simps r rs)
qed

text \<open>
  Claim C9, as the code has it. The rule evaluation pass depends on the host only through
  the functions of the conditions: when no condition of the store reads the host (each
  function returns the same at every state of the host), two passes over the same data
  give the same results, whatever the states of the host during each pass. The score
  calculation reads the clock once, in \<^verbatim>\<open>_calculateDataQualityScore\<close>, to place the age
  of the request below 60 000 ms, above 300 000 ms or between: two verifications of the
  same data with the same rules and thresholds then give the same results, breakdown and
  decision when their clock readings place the age alike.
\<close>

theorem verify_same_age_band:
  assumes "\<forall>r \<in> set (rules engine). \<forall>c f. own_prop r ''condition'' = JStr c
             \<longrightarrow> new_Function (replace_paths c) = Inr f
             \<longrightarrow> (\<forall>h h' ctx. f h ctx = f h' ctx)"
  shows "evaluateRules new_Function host1 (rules engine) verificationData
         = evaluateRules new_Function host2 (rules engine) verificationData
       \<and> (own_prop verificationData ''timestamp'' = JNum t
            \<longrightarrow> (now1 - t < 60000 \<longleftrightarrow> now2 - t < 60000)
            \<longrightarrow> (now1 - t > 300000 \<longleftrightarrow> now2 - t > 300000)
            \<longrightarrow> verify new_Function host1 now1 engine svc verificationData
                = verify new_Function host2 now2 engine svc verificationData)"
proof (intro conjI impI)
  show rules: "evaluateRules new_Function host1 (rules engine) verificationData
         = evaluateRules new_Function host2 (rules engine) verificationData"
    using assms by (rule evaluateRules_same)
  assume "own_prop verificationData ''timestamp'' = JNum t"
    "(now1 - t < 60000) = (now2 - t < 60000)" "(now1 - t > 300000) = (now2 - t > 300000)"
  then have eq: "calculateDataQualityScore now1 verificationData
        = calculateDataQualityScore now2 verificationData"
    by (simp add: calculateDataQualityScore_def age_test_def)
  show "verify new_Function host1 now1 engine svc verificationData
                = verify new_Function host2 now2 engine svc verificationData"
    unfolding verify_def calculateScore_def eq rules ..
qed

lemma js_fragment_reads_no_host:
  "js_fragment src = Inr f \<Longrightarrow> f h ctx = f h' ctx"
  by (auto simp: js_fragment_def split: sum.splits option.splits)

lemma test_rule_results:
  "evaluateRules js_fragment host (rules loaded_engine) sample_data = Inr [test_rule_result]"
  by (simp add: loaded_engine_eq test_rule_def mk_rule_def sample_data_def test_rule_result_def
        evaluateRule_def createSafeContext_def js_or_def Let_def true_condition)

lemma sample_scores:
  "calculateRuleScore [test_rule_result] = Inr (Finite 100)"
  "calculateBehavioralScore (own_prop sample_data ''behavioral'') = Inr 30"
  "calculateFingerprintScore (own_prop sample_data ''fingerprint'') = Inr 53.75"
  "calculateFacialScore (own_prop sample_data ''facial'') = 50"
  "calculateDataQualityScore 1700000000500 sample_data = Inr 70"
  "calculateDataQualityScore 1700000100000 sample_data = Inr 60"
  by (simp_all add: calculateRuleScore_def test_rule_result_def clamp_def sample_data_def
        calculateBehavioralScore_def calculateFingerprintScore_def calculateFacialScore_def
        calculateDataQualityScore_def requiredFields_def present_and_not_def longer_than_def
        suspicious_penalty_def suspiciousPatterns_def to_lower_def gt_def relational_def
        step_def bonus_def clamped_def age_test_def consistent_def round64_eval)

lemma sample_data_object: "\<not> nullish sample_data"
  by (simp add: sample_data_def)

text \<open>
  The theorem at the ages 500 ms and 59 999 ms, with the constructor of the fragment and
  two different sequences of host states.
\<close>

theorem verify_same_age_band_witness:
  "evaluateRules js_fragment (\<lambda>i. i) (rules loaded_engine) sample_data
     = evaluateRules js_fragment (\<lambda>i. 2 * i + 1) (rules loaded_engine) sample_data
   \<and> verify js_fragment (\<lambda>i. i) 1700000000500 loaded_engine configured_service sample_data
     = verify js_fragment (\<lambda>i. 2 * i + 1) 1700000059999 loaded_engine configured_service
         sample_data"
proof -
  have indep: "\<forall>r \<in> set (rules loaded_engine). \<forall>c f. own_prop r ''condition'' = JStr c
             \<longrightarrow> (js_fragment :: nat function_ctor) (replace_paths c) = Inr f
             \<longrightarrow> (\<forall>h h' ctx. f h ctx = f h' ctx)"
  proof (intro ballI allI impI)
    fix r c and f :: "nat js_function" and h h' ctx
    assume "js_fragment (replace_paths c) = Inr f"
    then show "f h ctx = f h' ctx"
      by (rule js_fragment_reads_no_host)
  qed
  have ts: "own_prop sample_data ''timestamp'' = JNum 1700000000000"
    by (simp add: sample_data_def)
  from verify_same_age_band
          [OF indep, where verificationData = sample_data and t = 1700000000000
             and ?host1.0 = "\<lambda>i. i" and ?host2.0 = "\<lambda>i. 2 * i + 1"
             and ?now1.0 = 1700000000500 and ?now2.0 = 1700000059999
             and svc = configured_service]
       ts
  show ?thesis
    by simp
qed

text \<open>
  Claim C9 as stated fails: the same data, rules and thresholds verified at the age of
  500 ms and at the age of 100 000 ms give the data-quality scores 70 and 60 and the final
  scores 66.75 and 66.25.
\<close>

theorem verify_depends_on_clock:
  "verify js_fragment quiet_host 1700000000500 loaded_engine configured_service sample_data
     = Inr ([test_rule_result],
            \<lparr>final_score = 66.75,
             reasons = [''Moderate confidence score with some risk factors'',
                        ''Insufficient or suspicious behavioral data''],
             breakdown = \<lparr>rule_score = 100, behavioral_score = 30, fingerprint_score = 53.75,
                          facial_score = 50, data_quality_score = 70\<rparr>\<rparr>,
            ''review'')
   \<and> verify js_fragment quiet_host 1700000100000 loaded_engine configured_service sample_data
     = Inr ([test_rule_result],
            \<lparr>final_score = 66.25,
             reasons = [''Moderate confidence score with some risk factors'',
                        ''Insufficient or suspicious behavioral data''],
             breakdown = \<lparr>rule_score = 100, behavioral_score = 30, fingerprint_score = 53.75,
                          facial_score = 50, data_quality_score = 60\<rparr>\<rparr>,
            ''review'')"
  by (simp add: verify_def test_rule_results calculateScore_def sample_scores
        combineScores_def generateReasons_def clamp_def getDecision_def configured_service_def
        relational_def sample_data_object)

end
